theory Spec2Isabelle
  imports Main
begin

section \<open>Data model\<close>

text \<open>
  A shallow embedding of the SquadCast app of cal.com:
  \<^verbatim>\<open>packages/app-store/squadcast/lib/VideoApiAdapter.ts\<close> (the meeting adapter) and
  \<^verbatim>\<open>packages/app-store/squadcast/api/add.ts\<close> (the install handler).

  A thrown exception and a rejected promise are the \<open>Inl\<close> of a sum; \<open>undefined\<close> is
  \<open>None\<close>. Effects are logs: every operation returns the list of the HTTP requests it
  issued, in order, beside its outcome.
\<close>

datatype error =
  TypeError        \<comment> \<open>reading a property of \<open>undefined\<close>, spreading \<open>undefined\<close>\<close>
  | ZodError       \<comment> \<open>a zod schema's \<open>parse\<close> rejects its input\<close>
  | SyntaxError    \<comment> \<open>\<open>res.json()\<close> on a body that is not JSON\<close>
  | RangeError     \<comment> \<open>an unknown time zone name given to the date formatter\<close>
  | Thrown string  \<comment> \<open>anything an external collaborator throws\<close>

text \<open>
  JSON values, as \<open>res.json()\<close>, \<open>req.body\<close> and Prisma's \<open>JsonValue\<close> give them.
  Only the truthiness of a number is ever observed, so numbers are integers here.
  An object is the list of its entries; its keys are distinct in a JavaScript object.
\<close>

datatype json =
  JNull
  | JBool bool
  | JNum int
  | JStr string
  | JArr "json list"
  | JObj "(string \<times> json) list"

record Person =
  email :: string
  timeZone :: string
  personId :: "nat option"  \<comment> \<open>\<open>id?: number\<close>\<close>

record ResponseField =
  value_r :: "string list"  \<comment> \<open>\<open>responses.guests.value as string[]\<close>\<close>

record Team =
  members :: "Person list"

text \<open>
  \<open>startTime\<close> and \<open>endTime\<close> are strings in the source, read by \<open>new Date\<close> and
  by dayjs. Here they are what the string parses to: the milliseconds since the epoch,
  or \<open>None\<close> when the string is not a date.
\<close>

record CalendarEvent =
  title :: string
  startTime :: "int option"
  endTime :: "int option"
  organizer :: Person
  attendees :: "Person list"
  responses :: "(string \<rightharpoonup> ResponseField) option"
  team :: "Team option"
  eventTypeId :: "nat option"  \<comment> \<open>\<open>eventTypeId?: number | null\<close>\<close>

record StageViewers =
  stage :: "string list"
  viewer :: "string list"

section \<open>The stage/viewer partition\<close>

text \<open>
  \<open>const guests = eventData.responses?.guests.value as string[]\<close>: the optional chain
  gives \<open>undefined\<close> when \<open>responses\<close> is absent; with \<open>responses\<close> present and no
  \<open>guests\<close> entry, \<open>.value\<close> is read of \<open>undefined\<close> and throws.
\<close>

definition guestsOf :: "CalendarEvent \<Rightarrow> error + string list option" where
  "guestsOf eventData =
     (case responses eventData of
        None \<Rightarrow> Inr None
      | Some r \<Rightarrow>
          (case r ''guests'' of
             None \<Rightarrow> Inl TypeError
           | Some g \<Rightarrow> Inr (Some (value_r g))))"

text \<open>
  \<open>allAttendees.filter((attendee) => !guests.includes(attendee))\<close>: the callback runs
  once per attendee, so with \<open>guests\<close> undefined it throws unless there is no attendee.
\<close>

definition filterGuests :: "string list option \<Rightarrow> string list \<Rightarrow> error + string list" where
  "filterGuests guests allAttendees =
     (case guests of
        None \<Rightarrow> (if allAttendees = [] then Inr [] else Inl TypeError)
      | Some gs \<Rightarrow> Inr (filter (\<lambda>attendee. \<not> List.member gs attendee) allAttendees))"

text \<open>
  \<open>const everyone = team ? [organizer, ...attendee, ...team] : [organizer, ...attendee]\<close>,
  where \<open>team\<close> is an array (truthy, also when empty) or \<open>undefined\<close>.
\<close>

definition everyoneOf :: "CalendarEvent \<Rightarrow> string list \<Rightarrow> string list" where
  "everyoneOf eventData attendee =
     (case map_option (\<lambda>t. map email (members t)) (team eventData) of
        Some tm \<Rightarrow> email (organizer eventData) # attendee @ tm
      | None \<Rightarrow> email (organizer eventData) # attendee)"

text \<open>\<open>[...guests]\<close> throws when \<open>guests\<close> is \<open>undefined\<close>.\<close>

definition spread :: "string list option \<Rightarrow> error + string list" where
  "spread guests = (case guests of None \<Rightarrow> Inl TypeError | Some gs \<Rightarrow> Inr gs)"

definition createStageAndViewers :: "CalendarEvent \<Rightarrow> error + StageViewers" where
  "createStageAndViewers eventData =
     (case guestsOf eventData of
        Inl err \<Rightarrow> Inl err
      | Inr guests \<Rightarrow>
          (case filterGuests guests (map email (attendees eventData)) of
             Inl err \<Rightarrow> Inl err
           | Inr attendee \<Rightarrow>
               (let everyone = everyoneOf eventData attendee in
                if length everyone \<le> 10 then
                  (case spread guests of
                     Inl err \<Rightarrow> Inl err
                   | Inr gs \<Rightarrow> Inr \<lparr>stage = everyone, viewer = gs\<rparr>)
                else
                  (case spread guests of
                     Inl err \<Rightarrow> Inl err
                   | Inr gs \<Rightarrow>
                       Inr \<lparr>stage = take 10 everyone, viewer = drop 10 everyone @ gs\<rparr>))))"

section \<open>HTTP, JSON and the external collaborators\<close>

record request =
  meth :: string
  url :: string
  headers :: "(string \<times> string) list"
  body :: "string option"

text \<open>
  A response: its status and what \<open>res.json()\<close> resolves to (\<open>None\<close> when the body
  is not JSON, and \<open>res.json()\<close> rejects).
\<close>

record response =
  status :: nat
  json_body :: "json option"

text \<open>\<open>response.ok\<close>: the status is in the range 200-299.\<close>

definition ok :: "response \<Rightarrow> bool" where
  "ok res = (200 \<le> status res \<and> status res \<le> 299)"

record Credential =
  key :: json  \<comment> \<open>Prisma's \<open>JsonValue\<close>, \<open>JNull\<close> when no key is stored\<close>

record AppData =
  showID :: "string option"

text \<open>\<open>as string\<close> is taken at its word for the password and the URL of a reference.\<close>

record PartialReference =
  meetingId :: "string option"
  meetingPassword :: string
  meetingUrl :: string

record VideoCallData =
  type_v :: string
  id_v :: string
  password :: string
  url_v :: string

text \<open>
  What the adapter imports and does not define, as parameters: \<open>fetch\<close> (the provider
  and the network: \<open>Inl\<close> is a rejected promise), \<open>symmetricDecrypt\<close>, the
  environment variable, the event type lookup of \<open>getShowId\<close>, the time zone database
  (the offset from UTC of a named zone at an instant, in minutes; \<open>None\<close> for a name
  that is not a zone), dayjs's date formatting and \<open>encodeURIComponent\<close>.
\<close>

record 'et env =
  fetch :: "request \<Rightarrow> error + response"
  symmetricDecrypt :: "string \<Rightarrow> string \<Rightarrow> error + string"
  CALENDSO_ENCRYPTION_KEY :: "string option"
  getEventTypeById :: "nat \<Rightarrow> nat \<Rightarrow> error + 'et"
  getEventTypeAppData :: "'et \<Rightarrow> AppData option"
  tzOffset :: "string \<Rightarrow> int \<Rightarrow> int option"
  dayjsFormat :: "int option \<Rightarrow> string \<Rightarrow> error + string"
  encodeURIComponent :: "string \<Rightarrow> string"

text \<open>\<open>_metadata.ts\<close>.\<close>

definition metadata_type :: string where
  "metadata_type = ''squadcast_video''"

definition metadata_slug :: string where
  "metadata_slug = ''squadcast''"

definition metadata_name :: string where
  "metadata_name = ''SquadCast''"

definition metadata_variant :: string where
  "metadata_variant = ''conferencing''"

text \<open>JavaScript truthiness of a JSON value.\<close>

fun truthy :: "json \<Rightarrow> bool" where
  "truthy JNull = False"
| "truthy (JBool b) = b"
| "truthy (JNum n) = (n \<noteq> 0)"
| "truthy (JStr s) = (s \<noteq> [])"
| "truthy (JArr xs) = True"
| "truthy (JObj kvs) = True"

text \<open>\<open>z.string()\<close> on the value of a property (\<open>None\<close>: the property is absent).\<close>

fun zString :: "json option \<Rightarrow> error + string" where
  "zString (Some (JStr s)) = Inr s"
| "zString j = Inl ZodError"

text \<open>
  \<open>z.object({ k: z.string() }).parse(x)\<close>: \<open>x\<close> must be an object whose property \<open>k\<close>
  is a string. The parsed object keeps the properties of the schema only (zod strips the
  others), so it is the one string.
\<close>

fun zObject1 :: "string \<Rightarrow> json \<Rightarrow> error + string" where
  "zObject1 k (JObj kvs) = zString (map_of kvs k)"
| "zObject1 k j = Inl ZodError"

text \<open>\<open>`${x}`\<close> for a string or \<open>undefined\<close>.\<close>

definition template :: "string option \<Rightarrow> string" where
  "template x = (case x of None \<Rightarrow> ''undefined'' | Some s \<Rightarrow> s)"

text \<open>\<open>process.env.CALENDSO_ENCRYPTION_KEY || ""\<close>.\<close>

definition encryptionKey :: "string option \<Rightarrow> string" where
  "encryptionKey v = (case v of None \<Rightarrow> [] | Some s \<Rightarrow> if s = [] then [] else s)"

section \<open>The adapter\<close>

definition empty :: VideoCallData where
  "empty = \<lparr>type_v = [], id_v = [], password = [], url_v = []\<rparr>"

definition getShowId :: "'et env \<Rightarrow> CalendarEvent \<Rightarrow> error + string option" where
  "getShowId env eventData =
     (case eventTypeId eventData of
        None \<Rightarrow> Inr None
      | Some etId \<Rightarrow>
          if etId = 0 then Inr None
          else
            (case personId (organizer eventData) of
               None \<Rightarrow> Inr None
             | Some userId \<Rightarrow>
                 if userId = 0 then Inr None
                 else
                   (case getEventTypeById env etId userId of
                      Inl err \<Rightarrow> Inl err
                    | Inr eventType \<Rightarrow>
                        (case getEventTypeAppData env eventType of
                           None \<Rightarrow> Inr None
                         | Some appData \<Rightarrow> Inr (showID appData)))))"

definition getApiKey :: "'et env \<Rightarrow> Credential \<Rightarrow> error + string option" where
  "getApiKey env credential =
     (if \<not> truthy (key credential) then Inr None
      else
        (case zObject1 ''apiKey'' (key credential) of
           Inl err \<Rightarrow> Inl err
         | Inr apiKey \<Rightarrow>
             (case symmetricDecrypt env apiKey (encryptionKey (CALENDSO_ENCRYPTION_KEY env)) of
                Inl err \<Rightarrow> Inl err
              | Inr k \<Rightarrow> Inr (Some k))))"

text \<open>\<open>Array.prototype.join\<close> on strings.\<close>

fun join :: "string \<Rightarrow> string list \<Rightarrow> string" where
  "join sep [] = []"
| "join sep [x] = x"
| "join sep (x # y # ys) = x @ sep @ join sep (y # ys)"

datatype qvalue = QStr string | QArr "string list"

definition createQueryString :: "(string \<Rightarrow> string) \<Rightarrow> (string \<times> qvalue) list \<Rightarrow> string" where
  "createQueryString enc params =
     join ''&''
       (map (\<lambda>(k, v).
               case v of
                 QArr vs \<Rightarrow> join ''&'' (map (\<lambda>val. enc k @ ''='' @ enc val) vs)
               | QStr s \<Rightarrow> enc k @ ''='' @ enc s)
          params)"

subsection \<open>Rendering the times\<close>

text \<open>
  \<open>new Date(x)\<close> holds a time value, or NaN (an Invalid Date) when \<open>x\<close> is not a
  date or lies more than 8.64e15 milliseconds from the epoch.
\<close>

definition timeValue :: "int option \<Rightarrow> int option" where
  "timeValue x =
     (case x of
        None \<Rightarrow> None
      | Some t \<Rightarrow> if \<bar>t\<bar> \<le> 8640000000000000 then Some t else None)"

text \<open>
  \<open>new Date(x).toLocaleTimeString("en-US", {hour: "2-digit", minute: "2-digit",
  hour12: true, timeZone: tz}).substring(0, 8)\<close>. Of an Invalid Date the method
  returns \<open>Invalid Date\<close> before it looks at its options, and the first 8 characters
  are sent. Otherwise it renders the wall clock of the zone at the instant on the 12-hour
  clock, as in \<open>02:30 PM\<close>: two digits of the hour (12 at midnight and at noon), two
  digits of the minute, and AM or PM. The zone \<open>UTC\<close> has offset 0; the offset of
  any other zone comes from the time zone database. An unknown zone name throws a
  RangeError.
\<close>

definition digit :: "nat \<Rightarrow> char" where
  "digit d = ''0123456789'' ! d"

definition twoDigit :: "nat \<Rightarrow> string" where
  "twoDigit n = [digit (n div 10 mod 10), digit (n mod 10)]"

text \<open>The wall clock, from the minute of the day.\<close>

definition clock12 :: "nat \<Rightarrow> string" where
  "clock12 m =
     (let h = m div 60 mod 24;
          mi = m mod 60;
          h12 = (if h mod 12 = 0 then 12 else h mod 12)
      in twoDigit h12 @ '':'' @ twoDigit mi @ '' '' @ (if h < 12 then ''AM'' else ''PM''))"

definition utcOffset :: "(string \<Rightarrow> int \<Rightarrow> int option) \<Rightarrow> string \<Rightarrow> int \<Rightarrow> int option" where
  "utcOffset tzdb tz t = (if tz = ''UTC'' then Some 0 else tzdb tz t)"

definition toLocaleTimeString ::
  "(string \<Rightarrow> int \<Rightarrow> int option) \<Rightarrow> int option \<Rightarrow> string \<Rightarrow> error + string" where
  "toLocaleTimeString tzdb x tz =
     (case timeValue x of
        None \<Rightarrow> Inr (take 8 ''Invalid Date'')
      | Some t \<Rightarrow>
          (case utcOffset tzdb tz t of
             None \<Rightarrow> Inl RangeError
           | Some off \<Rightarrow> Inr (take 8 (clock12 (nat ((t div 60000 + off) mod 1440))))))"

subsection \<open>The payload\<close>

datatype action = Create | Update

text \<open>\<open>const tz = action === "create" ? eventData.organizer.timeZone : "UTC"\<close>.\<close>

definition tzOf :: "CalendarEvent \<Rightarrow> action \<Rightarrow> string" where
  "tzOf eventData a = (if a = Create then timeZone (organizer eventData) else ''UTC'')"

text \<open>
  The \<open>data\<close> object of \<open>getQueryString\<close>, as the list of its entries in insertion
  order (the order of \<open>Object.entries\<close>), \<open>showID\<close> last and only when it is truthy.
\<close>

definition payload :: "'et env \<Rightarrow> CalendarEvent \<Rightarrow> action \<Rightarrow> error + (string \<times> qvalue) list" where
  "payload env eventData a =
     (let tz = tzOf eventData a in
      case createStageAndViewers eventData of
        Inl err \<Rightarrow> Inl err
      | Inr sv \<Rightarrow>
          (case dayjsFormat env (startTime eventData) tz of
             Inl err \<Rightarrow> Inl err
           | Inr date \<Rightarrow>
               (case toLocaleTimeString (tzOffset env) (startTime eventData) tz of
                  Inl err \<Rightarrow> Inl err
                | Inr startT \<Rightarrow>
                    (case toLocaleTimeString (tzOffset env) (endTime eventData) tz of
                       Inl err \<Rightarrow> Inl err
                     | Inr endT \<Rightarrow>
                         (let data =
                            [(''sessionTitle'', QStr (title eventData)),
                             (''date'', QStr date),
                             (''startTime'', QStr startT),
                             (''endTime'', QStr endT),
                             (''timeZone'', QStr (timeZone (organizer eventData))),
                             (''stage'', QArr (stage sv)),
                             (''viewer'', QArr (viewer sv))]
                          in case getShowId env eventData of
                               Inl err \<Rightarrow> Inl err
                             | Inr showId \<Rightarrow>
                                 (case showId of
                                    None \<Rightarrow> Inr data
                                  | Some sid \<Rightarrow>
                                      if sid = [] then Inr data
                                      else Inr (data @ [(''showID'', QStr sid)])))))))"

definition getQueryString :: "'et env \<Rightarrow> CalendarEvent \<Rightarrow> action \<Rightarrow> error + string" where
  "getQueryString env eventData a =
     (case payload env eventData a of
        Inl err \<Rightarrow> Inl err
      | Inr data \<Rightarrow> Inr (createQueryString (encodeURIComponent env) data))"

subsection \<open>createMeeting, deleteMeeting, updateMeeting\<close>

text \<open>
  The argument of \<open>fetch\<close> is evaluated before the call: first the Authorization header
  (\<open>getApiKey\<close>), then the body (\<open>getQueryString\<close>); either may throw, and then no
  request is issued.
\<close>

definition sessionRequest :: "string \<Rightarrow> string \<Rightarrow> string option \<Rightarrow> string \<Rightarrow> request" where
  "sessionRequest m u apiKey qs =
     \<lparr>meth = m, url = u,
      headers = [(''Authorization'', ''Bearer '' @ template apiKey),
                 (''Content-Type'', ''application/x-www-form-urlencoded; charset=utf-8'')],
      body = Some qs\<rparr>"

definition jsonRequest :: "string \<Rightarrow> string \<Rightarrow> string option \<Rightarrow> request" where
  "jsonRequest m u apiKey =
     \<lparr>meth = m, url = u,
      headers = [(''Authorization'', ''Bearer '' @ template apiKey),
                 (''Accept'', ''application/json'')],
      body = None\<rparr>"

text \<open>\<open>z.object({ sessionID: z.string(), showID: z.string() }).parse(newSession)\<close>.\<close>

definition zSession :: "json \<Rightarrow> error + string \<times> string" where
  "zSession j =
     (case zObject1 ''sessionID'' j of
        Inl err \<Rightarrow> Inl err
      | Inr sessionID \<Rightarrow>
          (case zObject1 ''showID'' j of
             Inl err \<Rightarrow> Inl err
           | Inr shID \<Rightarrow> Inr (sessionID, shID)))"

definition createMeeting ::
  "'et env \<Rightarrow> Credential \<Rightarrow> CalendarEvent \<Rightarrow> request list \<times> (error + VideoCallData)" where
  "createMeeting env credential eventData =
     (case getApiKey env credential of
        Inl err \<Rightarrow> ([], Inl err)
      | Inr apiKey \<Rightarrow>
          (case getQueryString env eventData Create of
             Inl err \<Rightarrow> ([], Inl err)
           | Inr qs \<Rightarrow>
               (let req = sessionRequest ''POST'' ''https://api.squadcast.fm/v2/sessions'' apiKey qs in
                case fetch env req of
                  Inl err \<Rightarrow> ([req], Inl err)
                | Inr res \<Rightarrow>
                    if status res \<noteq> 200 then ([req], Inr empty)
                    else
                      (case json_body res of
                         None \<Rightarrow> ([req], Inl SyntaxError)
                       | Some newSession \<Rightarrow>
                           (case zSession newSession of
                              Inl err \<Rightarrow> ([req], Inl err)
                            | Inr (sessionID, shID) \<Rightarrow>
                                ([req],
                                 Inr \<lparr>type_v = metadata_type, id_v = sessionID, password = [],
                                      url_v = ''https://app.squadcast.fm/studio/'' @ shID
                                              @ ''/session/'' @ sessionID\<rparr>))))))"

text \<open>
  An element of the recordings list after
  \<open>z.object({ status: z.string() }).or(z.object({ recordingID: z.string() }))\<close>: the
  union returns the result of the first schema that accepts the element, and an object
  schema returns the properties it names only. So the parsed element has a \<open>status\<close>
  and nothing else, or a \<open>recordingID\<close> and nothing else.
\<close>

datatype recording = Status string | RecordingID string

definition zRecording :: "json \<Rightarrow> error + recording" where
  "zRecording j =
     (case zObject1 ''status'' j of
        Inr s \<Rightarrow> Inr (Status s)
      | Inl e1 \<Rightarrow>
          (case zObject1 ''recordingID'' j of
             Inr r \<Rightarrow> Inr (RecordingID r)
           | Inl e2 \<Rightarrow> Inl ZodError))"

fun parseAll :: "(json \<Rightarrow> error + 'a) \<Rightarrow> json list \<Rightarrow> error + 'a list" where
  "parseAll p [] = Inr []"
| "parseAll p (x # xs) =
     (case p x of
        Inl err \<Rightarrow> Inl err
      | Inr v \<Rightarrow> (case parseAll p xs of Inl err \<Rightarrow> Inl err | Inr vs \<Rightarrow> Inr (v # vs)))"

text \<open>\<open>z.array(...).parse(data)\<close>.\<close>

fun zRecordings :: "json \<Rightarrow> error + recording list" where
  "zRecordings (JArr xs) = parseAll zRecording xs"
| "zRecordings j = Inl ZodError"

fun hasRecordingID :: "recording \<Rightarrow> bool" where
  "hasRecordingID (RecordingID r) = True"
| "hasRecordingID (Status s) = False"

text \<open>
  \<open>recordings[0].hasOwnProperty("recordingID")\<close>: on an empty list \<open>recordings[0]\<close> is
  \<open>undefined\<close> and the call throws.
\<close>

definition canWeDelete :: "recording list \<Rightarrow> error + bool" where
  "canWeDelete recordings =
     (case recordings of
        [] \<Rightarrow> Inl TypeError
      | r # rs \<Rightarrow> if hasRecordingID r then Inr False else Inr True)"

definition deleteMeeting :: "'et env \<Rightarrow> Credential \<Rightarrow> string \<Rightarrow> request list \<times> (error + unit)" where
  "deleteMeeting env credential uid =
     (case getApiKey env credential of
        Inl err \<Rightarrow> ([], Inl err)
      | Inr apiKey \<Rightarrow>
          (let get = jsonRequest ''GET''
                       (''https://api.squadcast.fm/v2/sessions/'' @ uid @ ''/recordings'') apiKey;
               del = jsonRequest ''DELETE'' (''https://api.squadcast.fm/v2/sessions/'' @ uid) apiKey
           in case fetch env get of
                Inl err \<Rightarrow> ([get], Inl err)
              | Inr res \<Rightarrow>
                  (case json_body res of
                     None \<Rightarrow> ([get], Inl SyntaxError)
                   | Some data \<Rightarrow>
                       (case zRecordings data of
                          Inl err \<Rightarrow> ([get], Inl err)
                        | Inr recordings \<Rightarrow>
                            (case canWeDelete recordings of
                               Inl err \<Rightarrow> ([get], Inl err)
                             | Inr can \<Rightarrow>
                                 if \<not> can then ([get], Inr ())
                                 else
                                   (case fetch env del of
                                      Inl err \<Rightarrow> ([get, del], Inl err)
                                    | Inr r \<Rightarrow> ([get, del], Inr ())))))))"

definition updateMeeting ::
  "'et env \<Rightarrow> Credential \<Rightarrow> PartialReference \<Rightarrow> CalendarEvent
     \<Rightarrow> request list \<times> (error + VideoCallData)" where
  "updateMeeting env credential bookingRef eventData =
     (case meetingId bookingRef of
        None \<Rightarrow> ([], Inr empty)
      | Some mid \<Rightarrow>
          if mid = [] then ([], Inr empty)
          else
            (case getApiKey env credential of
               Inl err \<Rightarrow> ([], Inl err)
             | Inr apiKey \<Rightarrow>
                 (case getQueryString env eventData Update of
                    Inl err \<Rightarrow> ([], Inl err)
                  | Inr qs \<Rightarrow>
                      (let req = sessionRequest ''PUT''
                                   (''https://api.squadcast.fm/v2/sessions/'' @ mid) apiKey qs in
                       case fetch env req of
                         Inl err \<Rightarrow> ([req], Inl err)
                       | Inr res \<Rightarrow>
                           ([req],
                            Inr \<lparr>type_v = metadata_type, id_v = mid,
                                 password = meetingPassword bookingRef,
                                 url_v = meetingUrl bookingRef\<rparr>)))))"

section \<open>The install handler\<close>

text \<open>
  \<^verbatim>\<open>api/add.ts\<close>. The request: its method, \<open>req.query.teamId\<close>, its body and the
  user id of its session.
\<close>

record AddRequest =
  req_method :: string
  query_teamId :: "string option"
  req_body :: json
  session_userId :: "nat option"

record User =
  user_email :: string
  user_id :: nat

text \<open>The \<open>data\<close> of \<open>prisma.credential.create\<close>; \<open>c_key\<close> is the encrypted API key.\<close>

record CredentialData =
  c_type :: string
  c_key :: string
  c_userId :: "nat option"
  c_teamId :: "int option"
  c_appId :: string
  c_invalid :: bool

datatype reply = Url string | Message string

text \<open>
  What the handler imports: the session check, \<open>fetch\<close>, JavaScript's \<open>Number\<close> (of
  \<open>z.coerce.number()\<close>; \<open>None\<close> is NaN), the user lookup, \<open>symmetricEncrypt\<close>, the
  environment variable, the credential store's \<open>create\<close> and \<open>getInstalledAppPath\<close>
  (of the variant and the slug).
\<close>

record add_env =
  checkSession :: "AddRequest \<Rightarrow> error + unit"
  fetch_a :: "request \<Rightarrow> error + response"
  toNumber :: "json \<Rightarrow> int option"
  findFirstOrThrow :: "nat option \<Rightarrow> error + User"
  symmetricEncrypt :: "string \<Rightarrow> string \<Rightarrow> string"
  ENCRYPTION_KEY_a :: "string option"
  credentialCreate :: "CredentialData \<Rightarrow> error + unit"
  getInstalledAppPath :: "string \<Rightarrow> string \<Rightarrow> string"

text \<open>
  What a run of the handler did: every \<open>res.status(s).json(b)\<close> it called (also one
  after a response has been sent), every request it issued, every credential it stored,
  and whether it threw.
\<close>

record AddResult =
  sent :: "(nat \<times> reply) list"
  requested :: "request list"
  created :: "CredentialData list"
  outcome :: "error + unit"

text \<open>
  \<open>z.object({ apiKey: z.string(), teamId: z.coerce.number().optional() }).parse(req.body)\<close>.
\<close>

definition formSchema :: "(json \<Rightarrow> int option) \<Rightarrow> json \<Rightarrow> error + string \<times> int option" where
  "formSchema num b =
     (case b of
        JObj kvs \<Rightarrow>
          (case zString (map_of kvs ''apiKey'') of
             Inl err \<Rightarrow> Inl err
           | Inr apiKey \<Rightarrow>
               (case map_of kvs ''teamId'' of
                  None \<Rightarrow> Inr (apiKey, None)
                | Some j \<Rightarrow>
                    (case num j of
                       None \<Rightarrow> Inl ZodError
                     | Some n \<Rightarrow> Inr (apiKey, Some n))))
      | _ \<Rightarrow> Inl ZodError)"

definition probeRequest :: "string \<Rightarrow> request" where
  "probeRequest apiKey =
     \<lparr>meth = ''GET'', url = ''https://api.squadcast.fm/v2/organizations'',
      headers = [(''Authorization'', ''Bearer '' @ apiKey)], body = None\<rparr>"

text \<open>
  \<open>await fetch(...).then((response) => { if (!response.ok) throw ... }).catch((error) =>
  { ...; return res.status(400).json(...) })\<close>: the \<open>catch\<close> callback answers 400 and
  returns from the callback, the awaited promise is fulfilled, and the handler goes on.
\<close>

definition verifyApiKey :: "add_env \<Rightarrow> string \<Rightarrow> (nat \<times> reply) list" where
  "verifyApiKey env apiKey =
     (case fetch_a env (probeRequest apiKey) of
        Inl err \<Rightarrow> [(400, Message ''Invalid API key'')]
      | Inr res \<Rightarrow> if \<not> ok res then [(400, Message ''Invalid API key'')] else [])"

definition credentialData :: "add_env \<Rightarrow> string \<Rightarrow> int option \<Rightarrow> User \<Rightarrow> CredentialData" where
  "credentialData env apiKey teamId user =
     (let dataWithUser =
            \<lparr>c_type = metadata_type,
             c_key = symmetricEncrypt env apiKey (encryptionKey (ENCRYPTION_KEY_a env)),
             c_userId = Some (user_id user), c_teamId = None,
             c_appId = metadata_slug, c_invalid = False\<rparr>;
          dataWithTeam =
            \<lparr>c_type = metadata_type,
             c_key = symmetricEncrypt env apiKey (encryptionKey (ENCRYPTION_KEY_a env)),
             c_userId = None, c_teamId = teamId,
             c_appId = metadata_slug, c_invalid = False\<rparr>
      in case teamId of
           None \<Rightarrow> dataWithUser
         | Some n \<Rightarrow> if n = 0 then dataWithUser else dataWithTeam)"

definition handler :: "add_env \<Rightarrow> AddRequest \<Rightarrow> AddResult" where
  "handler env req =
     (case checkSession env req of
        Inl err \<Rightarrow> \<lparr>sent = [], requested = [], created = [], outcome = Inl err\<rparr>
      | Inr u \<Rightarrow>
          if req_method req = ''GET'' then
            \<lparr>sent = [(200, Url (''/apps/'' @ metadata_slug @ ''/setup''
                        @ (case query_teamId req of
                             None \<Rightarrow> []
                           | Some t \<Rightarrow> if t = [] then [] else ''?teamId='' @ t)))],
             requested = [], created = [], outcome = Inr ()\<rparr>
          else if req_method req = ''POST'' then
            (case formSchema (toNumber env) (req_body req) of
               Inl err \<Rightarrow> \<lparr>sent = [], requested = [], created = [], outcome = Inl err\<rparr>
             | Inr (apiKey, teamId) \<Rightarrow>
                 (let answered = verifyApiKey env apiKey in
                  case findFirstOrThrow env (session_userId req) of
                    Inl err \<Rightarrow>
                      \<lparr>sent = answered, requested = [probeRequest apiKey], created = [],
                       outcome = Inl err\<rparr>
                  | Inr user \<Rightarrow>
                      (let data = credentialData env apiKey teamId user in
                       case credentialCreate env data of
                         Inl reason \<Rightarrow>
                           \<lparr>sent = answered
                              @ [(500, Message (''Could not add this '' @ metadata_name @ '' account''))],
                            requested = [probeRequest apiKey], created = [], outcome = Inr ()\<rparr>
                       | Inr c \<Rightarrow>
                           \<lparr>sent = answered
                              @ [(200, Url (getInstalledAppPath env metadata_variant metadata_slug))],
                            requested = [probeRequest apiKey], created = [data],
                            outcome = Inr ()\<rparr>)))
          else \<lparr>sent = [], requested = [], created = [], outcome = Inr ()\<rparr>)"

section \<open>Example inputs\<close>

definition person :: "string \<Rightarrow> string \<Rightarrow> Person" where
  "person e tz = \<lparr>email = e, timeZone = tz, personId = Some 7\<rparr>"

text \<open>An event of the organizer \<open>o@x.com\<close> (Berlin) with the given attendees, guests and team.\<close>

definition event :: "string list \<Rightarrow> string list option \<Rightarrow> string list option \<Rightarrow> CalendarEvent" where
  "event as gs tm =
     \<lparr>title = ''Demo'', startTime = Some 1767277800000, endTime = Some 1767281400000,
      organizer = person ''o@x.com'' ''Europe/Berlin'',
      attendees = map (\<lambda>e. person e ''UTC'') as,
      responses = map_option (\<lambda>g. [''guests'' \<mapsto> \<lparr>value_r = g\<rparr>]) gs,
      team = map_option (\<lambda>t. \<lparr>members = map (\<lambda>e. person e ''UTC'') t\<rparr>) tm,
      eventTypeId = None\<rparr>"

text \<open>
  A provider that answers every request with the given status and body, a decryption
  that strips the prefix \<open>enc:\<close>, and a time zone database that knows Berlin (UTC+1).
\<close>

definition provider :: "nat \<Rightarrow> json option \<Rightarrow> unit env" where
  "provider st b =
     \<lparr>fetch = (\<lambda>r. Inr \<lparr>status = st, json_body = b\<rparr>),
      symmetricDecrypt = (\<lambda>c k. if take 4 c = ''enc:'' then Inr (drop 4 c) else Inl (Thrown ''decrypt'')),
      CALENDSO_ENCRYPTION_KEY = Some ''secret'',
      getEventTypeById = (\<lambda>e u. Inr ()),
      getEventTypeAppData = (\<lambda>e. None),
      tzOffset = (\<lambda>tz t. if tz = ''Europe/Berlin'' then Some 60 else None),
      dayjsFormat = (\<lambda>t tz. Inr ''2026-01-01''),
      encodeURIComponent = (\<lambda>s. s)\<rparr>"

definition storedKey :: Credential where
  "storedKey = \<lparr>key = JObj [(''apiKey'', JStr ''enc:k1'')]\<rparr>"

definition noKey :: Credential where
  "noKey = \<lparr>key = JNull\<rparr>"

text \<open>An installation whose probe the provider answers with the given status.\<close>

definition installer :: "nat \<Rightarrow> add_env" where
  "installer st =
     \<lparr>checkSession = (\<lambda>r. Inr ()),
      fetch_a = (\<lambda>r. Inr \<lparr>status = st, json_body = None\<rparr>),
      toNumber = (\<lambda>j. case j of JNum n \<Rightarrow> Some n | _ \<Rightarrow> None),
      findFirstOrThrow = (\<lambda>i. case i of None \<Rightarrow> Inl (Thrown ''NotFound'')
                              | Some n \<Rightarrow> Inr \<lparr>user_email = ''u@x.com'', user_id = n\<rparr>),
      symmetricEncrypt = (\<lambda>p k. ''enc:'' @ p),
      ENCRYPTION_KEY_a = Some ''secret'',
      credentialCreate = (\<lambda>d. Inr ()),
      getInstalledAppPath = (\<lambda>v s. ''/apps/installed/'' @ v @ ''?hl='' @ s)\<rparr>"

definition installRequest :: "string \<Rightarrow> AddRequest" where
  "installRequest k =
     \<lparr>req_method = ''POST'', query_teamId = None,
      req_body = JObj [(''apiKey'', JStr k)], session_userId = Some 7\<rparr>"

section \<open>Properties of the partition\<close>

lemma everyoneOf_eq:
  "everyoneOf e xs =
     email (organizer e) # xs @ (case team e of None \<Rightarrow> [] | Some t \<Rightarrow> map email (members t))"
  by (simp add: everyoneOf_def split: option.splits)

lemma createStageAndViewers_guests:
  assumes "responses e = Some r" and "r ''guests'' = Some g"
  shows "createStageAndViewers e =
     (let everyone = everyoneOf e (filter (\<lambda>a. a \<notin> set (value_r g)) (map email (attendees e)))
      in if length everyone \<le> 10 then Inr \<lparr>stage = everyone, viewer = value_r g\<rparr>
         else Inr \<lparr>stage = take 10 everyone, viewer = drop 10 everyone @ value_r g\<rparr>)"
  using assms
  by (simp add: createStageAndViewers_def guestsOf_def filterGuests_def spread_def Let_def)

text \<open>
  Claim C5. When the list \<open>everyone\<close> (the organizer, then the attendees that are not
  guests, then the team members when there is a team) has at most 10 entries, the stage
  is \<open>everyone\<close>, in that order, and the viewers are exactly the guests.
\<close>

theorem stage_is_everyone_when_small:
  assumes "responses e = Some r" and "r ''guests'' = Some g"
    and "everyone = email (organizer e)
           # filter (\<lambda>a. a \<notin> set (value_r g)) (map email (attendees e))
           @ (case team e of None \<Rightarrow> [] | Some t \<Rightarrow> map email (members t))"
    and "length everyone \<le> 10"
  shows "createStageAndViewers e = Inr \<lparr>stage = everyone, viewer = value_r g\<rparr>"
  using assms by (simp add: createStageAndViewers_guests everyoneOf_eq Let_def)

theorem stage_is_everyone_when_small_witness:
  "createStageAndViewers (event [''a@x.com'', ''b@x.com'', ''g@x.com''] (Some [''g@x.com'']) (Some [''t@x.com'']))
     = Inr \<lparr>stage = [''o@x.com'', ''a@x.com'', ''b@x.com'', ''t@x.com''], viewer = [''g@x.com'']\<rparr>"
  using stage_is_everyone_when_small
    [of "event [''a@x.com'', ''b@x.com'', ''g@x.com''] (Some [''g@x.com'']) (Some [''t@x.com''])"
        "[''guests'' \<mapsto> \<lparr>value_r = [''g@x.com'']\<rparr>]" "\<lparr>value_r = [''g@x.com'']\<rparr>"
        "[''o@x.com'', ''a@x.com'', ''b@x.com'', ''t@x.com'']"]
  by (simp add: event_def person_def)

text \<open>
  Claim C4, as amended. When \<open>everyone\<close> has more than 10 entries, the stage is its
  first 10 entries (so it has 10 members, the organizer first), the viewers are the rest
  of \<open>everyone\<close> in order, then the guests; stage and viewers together are \<open>everyone\<close>
  followed by the guests, so nobody is lost, every attendee included. Nobody is in both
  lists when no email occurs twice in \<open>everyone\<close> followed by the guests.
\<close>

theorem stage_is_first_ten_when_large:
  assumes "responses e = Some r" and "r ''guests'' = Some g"
    and "everyone = email (organizer e)
           # filter (\<lambda>a. a \<notin> set (value_r g)) (map email (attendees e))
           @ (case team e of None \<Rightarrow> [] | Some t \<Rightarrow> map email (members t))"
    and "10 < length everyone"
  shows "\<exists>sv. createStageAndViewers e = Inr sv
           \<and> stage sv = take 10 everyone
           \<and> length (stage sv) = 10
           \<and> hd (stage sv) = email (organizer e)
           \<and> viewer sv = drop 10 everyone @ value_r g
           \<and> stage sv @ viewer sv = everyone @ value_r g
           \<and> set (map email (attendees e)) \<subseteq> set (stage sv) \<union> set (viewer sv)
           \<and> (distinct (everyone @ value_r g) \<longrightarrow> set (stage sv) \<inter> set (viewer sv) = {})"
proof -
  let ?sv = "\<lparr>stage = take 10 everyone, viewer = drop 10 everyone @ value_r g\<rparr>"
  have run: "createStageAndViewers e = Inr ?sv"
    using assms by (simp add: createStageAndViewers_guests everyoneOf_eq Let_def)
  have cat: "stage ?sv @ viewer ?sv = everyone @ value_r g"
    by simp
  have len: "length (stage ?sv) = 10"
    using assms(4) by simp
  have first: "hd (stage ?sv) = email (organizer e)"
    using assms(3) by simp
  have "set (map email (attendees e)) \<subseteq> set (everyone @ value_r g)"
    using assms(3) by auto
  then have kept: "set (map email (attendees e)) \<subseteq> set (stage ?sv) \<union> set (viewer ?sv)"
    unfolding cat [symmetric] by simp
  have apart: "set (stage ?sv) \<inter> set (viewer ?sv) = {}" if "distinct (everyone @ value_r g)"
  proof -
    from that have "distinct (stage ?sv @ viewer ?sv)"
      unfolding cat .
    then show ?thesis
      by (simp only: distinct_append)
  qed
  from run cat len first kept apart show ?thesis
    by (intro exI [of _ ?sv]) simp
qed


theorem stage_is_first_ten_when_large_witness:
  "10 < length [''o@x.com'', ''a1'', ''a2'', ''a3'', ''a4'', ''a5'', ''a6'', ''a7'', ''a8'', ''a9'', ''a10'']
   \<and> createStageAndViewers
         (event [''a1'', ''a2'', ''a3'', ''g1'', ''a4'', ''a5'', ''a6'', ''a7'', ''a8'', ''a9'', ''a10'']
            (Some [''g1'']) None)
       = Inr \<lparr>stage = [''o@x.com'', ''a1'', ''a2'', ''a3'', ''a4'', ''a5'', ''a6'', ''a7'', ''a8'', ''a9''],
              viewer = [''a10'', ''g1'']\<rparr>"
proof -
  let ?e = "event [''a1'', ''a2'', ''a3'', ''g1'', ''a4'', ''a5'', ''a6'', ''a7'', ''a8'', ''a9'', ''a10'']
              (Some [''g1'']) None"
  let ?g = "\<lparr>value_r = [''g1'']\<rparr>"
  let ?everyone = "[''o@x.com'', ''a1'', ''a2'', ''a3'', ''a4'', ''a5'', ''a6'', ''a7'', ''a8'', ''a9'', ''a10'']"
  have r: "responses ?e = Some [''guests'' \<mapsto> ?g]"
    by (simp add: event_def)
  have g: "[''guests'' \<mapsto> ?g] ''guests'' = Some ?g"
    by simp
  have ev: "?everyone = email (organizer ?e)
           # filter (\<lambda>a. a \<notin> set (value_r ?g)) (map email (attendees ?e))
           @ (case team ?e of None \<Rightarrow> [] | Some t \<Rightarrow> map email (members t))"
    by (simp add: event_def person_def)
  have len: "10 < length ?everyone"
    by simp
  from stage_is_first_ten_when_large [OF r g ev len]
  obtain sv where run: "createStageAndViewers ?e = Inr sv"
    and st: "stage sv = take 10 ?everyone"
    and vi: "viewer sv = drop 10 ?everyone @ value_r ?g"
    by blast
  have "sv = \<lparr>stage = [''o@x.com'', ''a1'', ''a2'', ''a3'', ''a4'', ''a5'', ''a6'', ''a7'', ''a8'', ''a9''],
              viewer = [''a10'', ''g1'']\<rparr>"
    using st vi by simp
  with run len show ?thesis
    by simp
qed

text \<open>
  The partition removes no duplicate: a team member who is also an attendee can be on
  the stage and among the viewers, so claim C4 fails as it is stated.
\<close>

theorem stage_viewer_overlap_counterexample:
  "createStageAndViewers
     (event [''a1'', ''a2'', ''a3'', ''a4'', ''a5'', ''a6'', ''a7'', ''a8'', ''a9''] (Some []) (Some [''a1'']))
     = Inr \<lparr>stage = [''o@x.com'', ''a1'', ''a2'', ''a3'', ''a4'', ''a5'', ''a6'', ''a7'', ''a8'', ''a9''],
            viewer = [''a1'']\<rparr>
   \<and> ''a1'' \<in> set [''o@x.com'', ''a1'', ''a2'', ''a3'', ''a4'', ''a5'', ''a6'', ''a7'', ''a8'', ''a9'']
   \<and> ''a1'' \<in> set [''a1'']"
  by (simp add: createStageAndViewers_def guestsOf_def filterGuests_def spread_def everyoneOf_def
      event_def person_def)

text \<open>
  Claim C2, as amended. Only the attendees are filtered by the guest list. When neither
  the organizer nor a team member is a guest, no guest is on the stage, whatever the
  number of participants.
\<close>

theorem no_guest_on_stage:
  assumes "responses e = Some r" and "r ''guests'' = Some g"
    and "email (organizer e) \<notin> set (value_r g)"
    and "(case team e of None \<Rightarrow> {} | Some t \<Rightarrow> set (map email (members t))) \<inter> set (value_r g) = {}"
  shows "\<exists>sv. createStageAndViewers e = Inr sv \<and> set (stage sv) \<inter> set (value_r g) = {}"
proof -
  let ?everyone = "everyoneOf e (filter (\<lambda>a. a \<notin> set (value_r g)) (map email (attendees e)))"
  have none: "set ?everyone \<inter> set (value_r g) = {}"
    using assms(3,4) by (auto simp add: everyoneOf_eq split: option.splits)
  have "set (take 10 ?everyone) \<subseteq> set ?everyone"
    by (rule set_take_subset)
  with none have first: "set (take 10 ?everyone) \<inter> set (value_r g) = {}"
    by blast
  show ?thesis
    using assms(1,2) none first
    by (simp add: createStageAndViewers_guests Let_def)
qed

theorem no_guest_on_stage_witness:
  "''o@x.com'' \<notin> set [''g@x.com'']
   \<and> set [''t@x.com''] \<inter> set [''g@x.com''] = {}
   \<and> (\<exists>sv. createStageAndViewers
               (event [''a@x.com'', ''g@x.com''] (Some [''g@x.com'']) (Some [''t@x.com''])) = Inr sv
          \<and> set (stage sv) \<inter> set [''g@x.com''] = {})"
proof -
  let ?e = "event [''a@x.com'', ''g@x.com''] (Some [''g@x.com'']) (Some [''t@x.com''])"
  let ?g = "\<lparr>value_r = [''g@x.com'']\<rparr>"
  have r: "responses ?e = Some [''guests'' \<mapsto> ?g]"
    by (simp add: event_def)
  have g: "[''guests'' \<mapsto> ?g] ''guests'' = Some ?g"
    by simp
  have o: "email (organizer ?e) \<notin> set (value_r ?g)"
    by (simp add: event_def person_def)
  have t: "(case team ?e of None \<Rightarrow> {} | Some t \<Rightarrow> set (map email (members t))) \<inter> set (value_r ?g) = {}"
    by (simp add: event_def person_def)
  from no_guest_on_stage [OF r g o t] show ?thesis
    by simp
qed

text \<open>
  A guest who is also a team member is on the stage, so claim C2 fails as it is stated.
\<close>

theorem guest_on_stage_counterexample:
  "createStageAndViewers (event [''a@x.com'', ''g@x.com''] (Some [''g@x.com'']) (Some [''g@x.com'']))
     = Inr \<lparr>stage = [''o@x.com'', ''a@x.com'', ''g@x.com''], viewer = [''g@x.com'']\<rparr>
   \<and> ''g@x.com'' \<in> set [''o@x.com'', ''a@x.com'', ''g@x.com'']"
  by (simp add: createStageAndViewers_def guestsOf_def filterGuests_def spread_def everyoneOf_def
      event_def person_def)

section \<open>Events without a guests entry\<close>

lemma createStageAndViewers_no_guests:
  assumes "responses e = None \<or> (\<exists>r. responses e = Some r \<and> r ''guests'' = None)"
  shows "createStageAndViewers e = Inl TypeError"
  using assms
  by (auto simp add: createStageAndViewers_def guestsOf_def filterGuests_def spread_def Let_def)

text \<open>
  Claim C10. When the event has no \<open>responses\<close>, or its \<open>responses\<close> have no
  \<open>guests\<close> entry, the partition throws, and so does the building of the payload;
  \<open>createMeeting\<close>, and \<open>updateMeeting\<close> with a meeting identifier, throw before any
  request is issued.
\<close>

theorem missing_guests_throws:
  assumes "responses e = None \<or> (\<exists>r. responses e = Some r \<and> r ''guests'' = None)"
  shows "createStageAndViewers e = Inl TypeError
       \<and> getQueryString env e a = Inl TypeError
       \<and> (\<exists>err. createMeeting env c e = ([], Inl err))
       \<and> (\<forall>m. meetingId b = Some m \<and> m \<noteq> [] \<longrightarrow> (\<exists>err. updateMeeting env c b e = ([], Inl err)))"
proof -
  have part: "createStageAndViewers e = Inl TypeError"
    using assms by (rule createStageAndViewers_no_guests)
  then have qs: "getQueryString env e x = Inl TypeError" for x
    by (simp add: getQueryString_def payload_def Let_def)
  have cm: "\<exists>err. createMeeting env c e = ([], Inl err)"
    by (cases "getApiKey env c") (simp_all add: createMeeting_def qs)
  have um: "\<exists>err. updateMeeting env c b e = ([], Inl err)" if "meetingId b = Some m" "m \<noteq> []" for m
    using that by (cases "getApiKey env c") (simp_all add: updateMeeting_def qs)
  from part qs cm um show ?thesis
    by blast
qed

theorem missing_guests_throws_witness:
  "responses (event [''a@x.com''] None None) = None
   \<and> createStageAndViewers (event [''a@x.com''] None None) = Inl TypeError
   \<and> createMeeting (provider 200 None) storedKey (event [''a@x.com''] None None) = ([], Inl TypeError)
   \<and> updateMeeting (provider 200 None) storedKey
        \<lparr>meetingId = Some ''s1'', meetingPassword = [], meetingUrl = ''u''\<rparr>
        (event [''a@x.com''] None None) = ([], Inl TypeError)"
proof -
  let ?e = "event [''a@x.com''] None None"
  have absent: "responses ?e = None"
    by (simp add: event_def)
  then have hyp: "responses ?e = None \<or> (\<exists>r. responses ?e = Some r \<and> r ''guests'' = None)"
    by (rule disjI1)
  have part: "createStageAndViewers ?e = Inl TypeError"
    and qs: "getQueryString (provider 200 None) ?e x = Inl TypeError" for x
    using missing_guests_throws [OF hyp] by blast+
  have k: "getApiKey (provider 200 None) storedKey = Inr (Some ''k1'')"
    by (simp add: getApiKey_def storedKey_def provider_def encryptionKey_def)
  show ?thesis
    by (simp add: absent part createMeeting_def updateMeeting_def k qs)
qed

section \<open>Properties of createMeeting\<close>

lemma createMeeting_requested:
  assumes "r \<in> set (fst (createMeeting env c e))"
  shows "\<exists>k qs. getApiKey env c = Inr k \<and> getQueryString env e Create = Inr qs
           \<and> r = sessionRequest ''POST'' ''https://api.squadcast.fm/v2/sessions'' k qs"
  using assms
  by (auto simp add: createMeeting_def Let_def split: sum.splits option.splits if_splits prod.splits)

lemma createMeeting_response:
  assumes "getApiKey env c = Inr k" and "getQueryString env e Create = Inr qs"
    and "fetch env (sessionRequest ''POST'' ''https://api.squadcast.fm/v2/sessions'' k qs) = Inr res"
  shows "createMeeting env c e =
     ([sessionRequest ''POST'' ''https://api.squadcast.fm/v2/sessions'' k qs],
      if status res \<noteq> 200 then Inr empty
      else (case json_body res of
              None \<Rightarrow> Inl SyntaxError
            | Some newSession \<Rightarrow>
                (case zSession newSession of
                   Inl err \<Rightarrow> Inl err
                 | Inr (sessionID, shID) \<Rightarrow>
                     Inr \<lparr>type_v = metadata_type, id_v = sessionID, password = [],
                          url_v = ''https://app.squadcast.fm/studio/'' @ shID
                                  @ ''/session/'' @ sessionID\<rparr>)))"
  using assms
  by (simp add: createMeeting_def Let_def split: sum.splits option.splits prod.splits)

lemma example_getQueryString:
  "\<exists>qs. getQueryString (provider st b) (event as (Some gs) tm) a = Inr qs"
  by (cases a)
    (simp_all add: getQueryString_def payload_def createStageAndViewers_def guestsOf_def
      filterGuests_def spread_def Let_def tzOf_def toLocaleTimeString_def timeValue_def utcOffset_def
      getShowId_def provider_def event_def person_def)

lemma example_getApiKey: "getApiKey (provider st b) storedKey = Inr (Some ''k1'')"
  by (simp add: getApiKey_def storedKey_def provider_def encryptionKey_def)

lemma example_createMeeting_requests:
  "\<exists>r. fst (createMeeting (provider st b) storedKey (event as (Some gs) tm)) = [r]"
proof -
  obtain qs where "getQueryString (provider st b) (event as (Some gs) tm) Create = Inr qs"
    using example_getQueryString by blast
  moreover have "fetch (provider st b) x = Inr \<lparr>status = st, json_body = b\<rparr>" for x
    by (simp add: provider_def)
  ultimately show ?thesis
    using example_getApiKey [of st b] by (simp add: createMeeting_response)
qed

text \<open>
  Claim C6. When the provider answers the request of \<open>createMeeting\<close> with a status
  that is not a success (not in 200-299), \<open>createMeeting\<close> returns the empty descriptor
  and does not throw.
\<close>

theorem createMeeting_soft_failure:
  assumes "r \<in> set (fst (createMeeting env c e))"
    and "fetch env r = Inr res" and "\<not> ok res"
  shows "createMeeting env c e = ([r], Inr \<lparr>type_v = [], id_v = [], password = [], url_v = []\<rparr>)
       \<and> snd (createMeeting env c e) = Inr empty"
proof -
  from assms(1) obtain k qs where k: "getApiKey env c = Inr k"
    and qs: "getQueryString env e Create = Inr qs"
    and r: "r = sessionRequest ''POST'' ''https://api.squadcast.fm/v2/sessions'' k qs"
    using createMeeting_requested by blast
  from assms(3) have "status res \<noteq> 200"
    by (auto simp add: ok_def)
  with k qs r assms(2) show ?thesis
    by (simp add: createMeeting_response empty_def)
qed

theorem createMeeting_soft_failure_witness:
  "\<not> ok \<lparr>status = 503, json_body = None\<rparr>
   \<and> fst (createMeeting (provider 503 None) storedKey (event [''a@x.com''] (Some []) None)) \<noteq> []
   \<and> snd (createMeeting (provider 503 None) storedKey (event [''a@x.com''] (Some []) None))
       = Inr \<lparr>type_v = [], id_v = [], password = [], url_v = []\<rparr>"
proof -
  let ?run = "createMeeting (provider 503 None) storedKey (event [''a@x.com''] (Some []) None)"
  obtain r where r: "fst ?run = [r]"
    using example_createMeeting_requests by blast
  then have req: "r \<in> set (fst ?run)"
    by simp
  have res: "fetch (provider 503 None) r = Inr \<lparr>status = 503, json_body = None\<rparr>"
    by (simp add: provider_def)
  have bad: "\<not> ok \<lparr>status = 503, json_body = None\<rparr>"
    by (simp add: ok_def)
  from createMeeting_soft_failure [OF req res bad] r bad show ?thesis
    by simp
qed

text \<open>
  Claim C9. Whatever status other than 200 the provider answers with, 201 included,
  \<open>createMeeting\<close> returns the empty descriptor; it returns another descriptor only when
  the status of the response is 200, and at 200 it never returns the empty descriptor.
\<close>

theorem createMeeting_only_200:
  "(\<forall>r res. r \<in> set (fst (createMeeting env c e)) \<and> fetch env r = Inr res \<and> status res \<noteq> 200
       \<longrightarrow> createMeeting env c e = ([r], Inr empty))
   \<and> (\<forall>d. snd (createMeeting env c e) = Inr d \<and> d \<noteq> empty
       \<longrightarrow> (\<exists>r res. fst (createMeeting env c e) = [r] \<and> fetch env r = Inr res \<and> status res = 200))
   \<and> (\<forall>r res. r \<in> set (fst (createMeeting env c e)) \<and> fetch env r = Inr res \<and> status res = 200
       \<longrightarrow> snd (createMeeting env c e) \<noteq> Inr empty)"
proof (intro conjI allI impI)
  fix r res
  assume a: "r \<in> set (fst (createMeeting env c e)) \<and> fetch env r = Inr res \<and> status res \<noteq> 200"
  then obtain k qs where "getApiKey env c = Inr k" "getQueryString env e Create = Inr qs"
    "r = sessionRequest ''POST'' ''https://api.squadcast.fm/v2/sessions'' k qs"
    using createMeeting_requested by blast
  with a show "createMeeting env c e = ([r], Inr empty)"
    by (simp add: createMeeting_response)
next
  fix d
  assume a: "snd (createMeeting env c e) = Inr d \<and> d \<noteq> empty"
  then show "\<exists>r res. fst (createMeeting env c e) = [r] \<and> fetch env r = Inr res \<and> status res = 200"
    by (auto simp add: createMeeting_def Let_def split: sum.splits option.splits if_splits prod.splits)
next
  fix r res
  assume a: "r \<in> set (fst (createMeeting env c e)) \<and> fetch env r = Inr res \<and> status res = 200"
  then obtain k qs where "getApiKey env c = Inr k" "getQueryString env e Create = Inr qs"
    "r = sessionRequest ''POST'' ''https://api.squadcast.fm/v2/sessions'' k qs"
    using createMeeting_requested by blast
  with a show "snd (createMeeting env c e) \<noteq> Inr empty"
    by (auto simp add: createMeeting_response empty_def metadata_type_def
        split: sum.splits option.splits prod.splits)
qed

theorem createMeeting_only_200_witness:
  "status \<lparr>status = 201, json_body = Some (JObj [(''sessionID'', JStr ''s1''), (''showID'', JStr ''sh1'')])\<rparr> \<noteq> 200
   \<and> snd (createMeeting (provider 201 (Some (JObj [(''sessionID'', JStr ''s1''), (''showID'', JStr ''sh1'')])))
           storedKey (event [''a@x.com''] (Some []) None))
       = Inr \<lparr>type_v = [], id_v = [], password = [], url_v = []\<rparr>
   \<and> snd (createMeeting (provider 200 (Some (JObj [(''sessionID'', JStr ''s1''), (''showID'', JStr ''sh1'')])))
           storedKey (event [''a@x.com''] (Some []) None))
       = Inr \<lparr>type_v = ''squadcast_video'', id_v = ''s1'', password = [],
              url_v = ''https://app.squadcast.fm/studio/sh1/session/s1''\<rparr>"
proof -
  let ?b = "Some (JObj [(''sessionID'', JStr ''s1''), (''showID'', JStr ''sh1'')])"
  let ?e = "event [''a@x.com''] (Some []) None"
  obtain r where r: "fst (createMeeting (provider 201 ?b) storedKey ?e) = [r]"
    using example_createMeeting_requests by blast
  have res: "fetch (provider 201 ?b) r = Inr \<lparr>status = 201, json_body = ?b\<rparr>"
    by (simp add: provider_def)
  from createMeeting_only_200 [of "provider 201 ?b" storedKey ?e] r res
  have first: "createMeeting (provider 201 ?b) storedKey ?e = ([r], Inr empty)"
    by simp
  obtain qs where qs: "getQueryString (provider 200 ?b) ?e Create = Inr qs"
    using example_getQueryString by blast
  have "fetch (provider 200 ?b) x = Inr \<lparr>status = 200, json_body = ?b\<rparr>" for x
    by (simp add: provider_def)
  with qs have second: "snd (createMeeting (provider 200 ?b) storedKey ?e)
       = Inr \<lparr>type_v = ''squadcast_video'', id_v = ''s1'', password = [],
              url_v = ''https://app.squadcast.fm/studio/sh1/session/s1''\<rparr>"
    by (simp add: createMeeting_response [OF example_getApiKey] zSession_def metadata_type_def)
  from first second show ?thesis
    by (simp add: empty_def)
qed

section \<open>The API key of the requests\<close>

lemma deleteMeeting_requested:
  assumes "r \<in> set (fst (deleteMeeting env c uid))"
  shows "\<exists>k. getApiKey env c = Inr k
           \<and> (r = jsonRequest ''GET'' (''https://api.squadcast.fm/v2/sessions/'' @ uid @ ''/recordings'') k
              \<or> r = jsonRequest ''DELETE'' (''https://api.squadcast.fm/v2/sessions/'' @ uid) k)"
  using assms
  by (auto simp add: deleteMeeting_def Let_def split: sum.splits option.splits if_splits)

lemma updateMeeting_requested:
  assumes "r \<in> set (fst (updateMeeting env c b e))"
  shows "\<exists>k qs m. getApiKey env c = Inr k \<and> getQueryString env e Update = Inr qs
           \<and> meetingId b = Some m \<and> m \<noteq> []
           \<and> r = sessionRequest ''PUT'' (''https://api.squadcast.fm/v2/sessions/'' @ m) k qs"
  using assms
  by (auto simp add: updateMeeting_def Let_def split: sum.splits option.splits if_splits)

lemma getApiKey_None: "getApiKey env c = Inr None \<longleftrightarrow> \<not> truthy (key c)"
  by (auto simp add: getApiKey_def split: sum.splits)

lemma getApiKey_Some:
  "getApiKey env c = Inr (Some k) \<longleftrightarrow>
     truthy (key c)
     \<and> (\<exists>a. zObject1 ''apiKey'' (key c) = Inr a
            \<and> symmetricDecrypt env a (encryptionKey (CALENDSO_ENCRYPTION_KEY env)) = Inr k)"
  by (auto simp add: getApiKey_def split: sum.splits)

lemma getApiKey_throws:
  "getApiKey env c = Inl err \<longleftrightarrow>
     truthy (key c)
     \<and> (zObject1 ''apiKey'' (key c) = Inl err
        \<or> (\<exists>a. zObject1 ''apiKey'' (key c) = Inr a
              \<and> symmetricDecrypt env a (encryptionKey (CALENDSO_ENCRYPTION_KEY env)) = Inl err))"
  by (auto simp add: getApiKey_def split: sum.splits)

text \<open>
  Without a stored key \<open>getApiKey\<close> returns \<open>undefined\<close>, and \<open>createMeeting\<close> goes on:
  it sends \<open>Bearer undefined\<close> and returns the descriptor of the session the provider
  answers with. So claim C3 fails as it is stated.
\<close>

theorem absent_key_counterexample:
  "getApiKey (provider 200 (Some (JObj [(''sessionID'', JStr ''s1''), (''showID'', JStr ''sh1'')]))) noKey
     = Inr None
   \<and> map (\<lambda>r. map_of (headers r) ''Authorization'')
        (fst (createMeeting (provider 200 (Some (JObj [(''sessionID'', JStr ''s1''), (''showID'', JStr ''sh1'')])))
           noKey (event [''a@x.com''] (Some []) None)))
       = [Some ''Bearer undefined'']
   \<and> snd (createMeeting (provider 200 (Some (JObj [(''sessionID'', JStr ''s1''), (''showID'', JStr ''sh1'')])))
           noKey (event [''a@x.com''] (Some []) None))
       = Inr \<lparr>type_v = ''squadcast_video'', id_v = ''s1'', password = [],
              url_v = ''https://app.squadcast.fm/studio/sh1/session/s1''\<rparr>"
proof -
  let ?b = "Some (JObj [(''sessionID'', JStr ''s1''), (''showID'', JStr ''sh1'')])"
  let ?e = "event [''a@x.com''] (Some []) None"
  have k: "getApiKey (provider 200 ?b) noKey = Inr None"
    by (simp add: getApiKey_def noKey_def)
  obtain qs where qs: "getQueryString (provider 200 ?b) ?e Create = Inr qs"
    using example_getQueryString by blast
  have "fetch (provider 200 ?b) x = Inr \<lparr>status = 200, json_body = ?b\<rparr>" for x
    by (simp add: provider_def)
  with qs k show ?thesis
    by (simp add: createMeeting_response [OF k] zSession_def metadata_type_def
        sessionRequest_def template_def)
qed

text \<open>
  Claim C3, as amended. When \<open>getApiKey\<close> throws (the stored key does not fit the
  schema, or its decryption throws), each operation throws before it issues a request.
  Otherwise every request the three operations issue carries \<open>Bearer\<close> and what
  \<open>getApiKey\<close> returned: the decrypted key when the credential has a key, and
  \<open>undefined\<close> when it has none.
\<close>

theorem requests_carry_getApiKey:
  "(\<forall>err. getApiKey env c = Inl err \<longrightarrow>
        createMeeting env c e = ([], Inl err)
      \<and> deleteMeeting env c uid = ([], Inl err)
      \<and> (\<forall>m. meetingId b = Some m \<and> m \<noteq> [] \<longrightarrow> updateMeeting env c b e = ([], Inl err)))
   \<and> (\<forall>k. getApiKey env c = Inr k \<longrightarrow>
        (\<forall>r \<in> set (fst (createMeeting env c e)) \<union> set (fst (deleteMeeting env c uid))
               \<union> set (fst (updateMeeting env c b e)).
           map_of (headers r) ''Authorization'' = Some (''Bearer '' @ template k)))
   \<and> (\<forall>k. getApiKey env c = Inr (Some k) \<longleftrightarrow>
        truthy (key c)
        \<and> (\<exists>a. zObject1 ''apiKey'' (key c) = Inr a
               \<and> symmetricDecrypt env a (encryptionKey (CALENDSO_ENCRYPTION_KEY env)) = Inr k))
   \<and> (getApiKey env c = Inr None \<longleftrightarrow> \<not> truthy (key c))"
proof (intro conjI allI impI ballI)
  fix err assume "getApiKey env c = Inl err"
  then show "createMeeting env c e = ([], Inl err)"
    by (simp add: createMeeting_def)
next
  fix err assume "getApiKey env c = Inl err"
  then show "deleteMeeting env c uid = ([], Inl err)"
    by (simp add: deleteMeeting_def)
next
  fix err m assume "getApiKey env c = Inl err" and "meetingId b = Some m \<and> m \<noteq> []"
  then show "updateMeeting env c b e = ([], Inl err)"
    by (simp add: updateMeeting_def)
next
  fix k r
  assume k: "getApiKey env c = Inr k"
    and "r \<in> set (fst (createMeeting env c e)) \<union> set (fst (deleteMeeting env c uid))
             \<union> set (fst (updateMeeting env c b e))"
  then consider "r \<in> set (fst (createMeeting env c e))"
    | "r \<in> set (fst (deleteMeeting env c uid))"
    | "r \<in> set (fst (updateMeeting env c b e))"
    by blast
  then show "map_of (headers r) ''Authorization'' = Some (''Bearer '' @ template k)"
  proof cases
    case 1
    then show ?thesis
      using createMeeting_requested [of r env c e] k by (auto simp add: sessionRequest_def)
  next
    case 2
    then show ?thesis
      using deleteMeeting_requested [of r env c uid] k by (auto simp add: jsonRequest_def)
  next
    case 3
    then show ?thesis
      using updateMeeting_requested [of r env c b e] k by (auto simp add: sessionRequest_def)
  qed
next
  fix k
  show "getApiKey env c = Inr (Some k) \<longleftrightarrow>
        truthy (key c)
        \<and> (\<exists>a. zObject1 ''apiKey'' (key c) = Inr a
               \<and> symmetricDecrypt env a (encryptionKey (CALENDSO_ENCRYPTION_KEY env)) = Inr k)"
    by (rule getApiKey_Some)
next
  show "getApiKey env c = Inr None \<longleftrightarrow> \<not> truthy (key c)"
    by (rule getApiKey_None)
qed

theorem requests_carry_getApiKey_witness:
  "getApiKey (provider 503 None) storedKey = Inr (Some ''k1'')
   \<and> map (\<lambda>r. map_of (headers r) ''Authorization'')
        (fst (createMeeting (provider 503 None) storedKey (event [''a@x.com''] (Some []) None)))
       = [Some ''Bearer k1'']
   \<and> getApiKey (provider 503 None) \<lparr>key = JObj [(''apiKey'', JNum 5)]\<rparr> = Inl ZodError
   \<and> createMeeting (provider 503 None) \<lparr>key = JObj [(''apiKey'', JNum 5)]\<rparr>
        (event [''a@x.com''] (Some []) None) = ([], Inl ZodError)
   \<and> deleteMeeting (provider 503 None) \<lparr>key = JObj [(''apiKey'', JNum 5)]\<rparr> ''s1'' = ([], Inl ZodError)"
proof -
  let ?env = "provider 503 None"
  let ?e = "event [''a@x.com''] (Some []) None"
  let ?bad = "\<lparr>key = JObj [(''apiKey'', JNum 5)]\<rparr>"
  let ?b = "\<lparr>meetingId = None, meetingPassword = [], meetingUrl = []\<rparr>"
  have k: "getApiKey ?env storedKey = Inr (Some ''k1'')"
    by (rule example_getApiKey)
  obtain r where r: "fst (createMeeting ?env storedKey ?e) = [r]"
    using example_createMeeting_requests by blast
  from requests_carry_getApiKey [of ?env storedKey ?e "''s1''" ?b] k r
  have "map_of (headers r) ''Authorization'' = Some (''Bearer '' @ template (Some ''k1''))"
    by simp
  with r have hdr: "map (\<lambda>r. map_of (headers r) ''Authorization'') (fst (createMeeting ?env storedKey ?e))
       = [Some ''Bearer k1'']"
    by (simp add: template_def)
  have z: "getApiKey ?env ?bad = Inl ZodError"
    by (simp add: getApiKey_def)
  from requests_carry_getApiKey [of ?env ?bad ?e "''s1''" ?b] z
  have "createMeeting ?env ?bad ?e = ([], Inl ZodError)"
    and "deleteMeeting ?env ?bad ''s1'' = ([], Inl ZodError)"
    by blast+
  with k hdr z show ?thesis
    by simp
qed

section \<open>deleteMeeting and the recordings of the session\<close>

lemma example_fetch: "fetch (provider st b) r = Inr \<lparr>status = st, json_body = b\<rparr>"
  by (simp add: provider_def)

lemma deleteMeeting_recordings:
  assumes "getApiKey env c = Inr k"
    and "fetch env (jsonRequest ''GET'' (''https://api.squadcast.fm/v2/sessions/'' @ uid @ ''/recordings'') k)
           = Inr res"
    and "json_body res = Some data" and "zRecordings data = Inr recordings"
  shows "deleteMeeting env c uid =
     (let get = jsonRequest ''GET'' (''https://api.squadcast.fm/v2/sessions/'' @ uid @ ''/recordings'') k;
          del = jsonRequest ''DELETE'' (''https://api.squadcast.fm/v2/sessions/'' @ uid) k
      in case recordings of
           [] \<Rightarrow> ([get], Inl TypeError)
         | RecordingID i # rs \<Rightarrow> ([get], Inr ())
         | Status s # rs \<Rightarrow>
             (case fetch env del of
                Inl err \<Rightarrow> ([get, del], Inl err)
              | Inr r \<Rightarrow> ([get, del], Inr ())))"
  using assms
  by (simp add: deleteMeeting_def canWeDelete_def Let_def split: list.splits recording.splits)

text \<open>
  A first element with a \<open>recordingID\<close> and no \<open>status\<close> string keeps the session
  (one request, the GET), and a first element with a \<open>status\<close> string has the DELETE
  issued after the GET.
\<close>

lemma deleteMeeting_keeps_recorded_session:
  assumes "getApiKey env c = Inr k"
    and "fetch env (jsonRequest ''GET'' (''https://api.squadcast.fm/v2/sessions/'' @ uid @ ''/recordings'') k)
           = Inr res"
    and "json_body res = Some data" and "zRecordings data = Inr (RecordingID i # rs)"
  shows "deleteMeeting env c uid =
     ([jsonRequest ''GET'' (''https://api.squadcast.fm/v2/sessions/'' @ uid @ ''/recordings'') k], Inr ())"
  using deleteMeeting_recordings [OF assms] by (simp add: Let_def)

lemma deleteMeeting_deletes_unrecorded_session:
  assumes "getApiKey env c = Inr k"
    and "fetch env (jsonRequest ''GET'' (''https://api.squadcast.fm/v2/sessions/'' @ uid @ ''/recordings'') k)
           = Inr res"
    and "json_body res = Some data" and "zRecordings data = Inr (Status s # rs)"
  shows "fst (deleteMeeting env c uid) =
     [jsonRequest ''GET'' (''https://api.squadcast.fm/v2/sessions/'' @ uid @ ''/recordings'') k,
      jsonRequest ''DELETE'' (''https://api.squadcast.fm/v2/sessions/'' @ uid) k]"
  using deleteMeeting_recordings [OF assms] by (simp add: Let_def split: sum.splits)

text \<open>
  Claim C1 at an empty recordings list: \<open>recordings[0]\<close> is \<open>undefined\<close>, the call of
  \<open>hasOwnProperty\<close> throws a TypeError, and the only request issued is the GET. The
  session is not deleted, and the operation fails.
\<close>

theorem deleteMeeting_empty_recordings:
  "deleteMeeting (provider 200 (Some (JArr []))) storedKey ''s1''
     = ([\<lparr>meth = ''GET'', url = ''https://api.squadcast.fm/v2/sessions/s1/recordings'',
          headers = [(''Authorization'', ''Bearer k1''), (''Accept'', ''application/json'')],
          body = None\<rparr>],
        Inl TypeError)"
  by (simp add: deleteMeeting_def example_getApiKey example_fetch canWeDelete_def jsonRequest_def
      template_def)

text \<open>
  A first element with both a \<open>status\<close> and a \<open>recordingID\<close> is accepted by the first
  schema of the union, which keeps the \<open>status\<close> only: the session is deleted.
\<close>

lemma deleteMeeting_recording_with_status:
  "map meth (fst (deleteMeeting
      (provider 200 (Some (JArr [JObj [(''status'', JStr ''done''), (''recordingID'', JStr ''r1'')]])))
      storedKey ''s1''))
     = [''GET'', ''DELETE'']"
  by (simp add: deleteMeeting_def example_getApiKey example_fetch canWeDelete_def jsonRequest_def
      zRecording_def)

section \<open>The install handler\<close>

text \<open>
  Whenever the probe is refused (or fails), the handler answers 400 and goes on: with a
  session, a well-formed body, a user and a store that accepts, the credential is stored.
\<close>

lemma handler_stores_after_refused_probe:
  assumes "checkSession env req = Inr ()" and "req_method req = ''POST''"
    and "formSchema (toNumber env) (req_body req) = Inr (apiKey, teamId)"
    and "fetch_a env (probeRequest apiKey) = Inr res" and "\<not> ok res"
    and "findFirstOrThrow env (session_userId req) = Inr user"
    and "credentialCreate env (credentialData env apiKey teamId user) = Inr ()"
  shows "sent (handler env req) =
           [(400, Message ''Invalid API key''),
            (200, Url (getInstalledAppPath env metadata_variant metadata_slug))]
       \<and> created (handler env req) = [credentialData env apiKey teamId user]"
  using assms by (simp add: handler_def verifyApiKey_def Let_def)

text \<open>
  Claim C8 at a key the provider refuses with 401: the handler answers 400, and then
  stores the credential with the refused key and answers 200.
\<close>

theorem install_stores_refused_key:
  "sent (handler (installer 401) (installRequest ''bad''))
     = [(400, Message ''Invalid API key''), (200, Url ''/apps/installed/conferencing?hl=squadcast'')]
   \<and> created (handler (installer 401) (installRequest ''bad''))
     = [\<lparr>c_type = ''squadcast_video'', c_key = ''enc:bad'', c_userId = Some 7, c_teamId = None,
         c_appId = ''squadcast'', c_invalid = False\<rparr>]"
  by (simp add: handler_def verifyApiKey_def formSchema_def credentialData_def probeRequest_def
      installer_def installRequest_def ok_def encryptionKey_def metadata_type_def metadata_slug_def
      metadata_variant_def Let_def)

section \<open>The times of the payload\<close>

lemma digit_inject:
  assumes "digit a = digit b" and "a < 10" and "b < 10"
  shows "a = b"
proof -
  have "distinct ''0123456789''"
    by simp
  moreover have "a < length ''0123456789''" and "b < length ''0123456789''"
    using assms(2,3) by simp_all
  ultimately show ?thesis
    using assms(1) unfolding digit_def by (simp only: nth_eq_iff_index_eq)
qed

lemma twoDigit_inject:
  assumes "twoDigit a = twoDigit b" and "a < 100" and "b < 100"
  shows "a = b"
proof -
  from assms(1) have tens: "digit (a div 10 mod 10) = digit (b div 10 mod 10)"
    and units: "digit (a mod 10) = digit (b mod 10)"
    by (simp_all add: twoDigit_def)
  have "a div 10 mod 10 = b div 10 mod 10"
    by (rule digit_inject [OF tens]) simp_all
  moreover have "a div 10 < 10" and "b div 10 < 10"
    using assms(2,3) by (simp_all add: less_mult_imp_div_less)
  ultimately have "a div 10 = b div 10"
    by simp
  moreover have "a mod 10 = b mod 10"
    by (rule digit_inject [OF units]) simp_all
  ultimately show ?thesis
    by (metis div_mult_mod_eq)
qed

lemma clock12_length: "length (clock12 m) = 8"
  by (simp add: clock12_def twoDigit_def Let_def)

lemma twoDigit_length: "length (twoDigit n) = 2"
  by (simp add: twoDigit_def)

lemma hour12_inject:
  fixes h k :: nat
  assumes "(if h mod 12 = 0 then 12 else h mod 12) = (if k mod 12 = 0 then 12 else k mod 12)"
    and "h < 12 \<longleftrightarrow> k < 12" and "h < 24" and "k < 24"
  shows "h = k"
proof -
  have "h mod 12 < 12" and "k mod 12 < 12"
    by simp_all
  with assms(1) have same: "h mod 12 = k mod 12"
    by (cases "h mod 12 = 0"; cases "k mod 12 = 0") simp_all
  show ?thesis
  proof (cases "h < 12")
    case True
    with assms(2) have "k < 12"
      by simp
    with True same show ?thesis
      by simp
  next
    case False
    with assms(2) have "\<not> k < 12"
      by simp
    with False have "h mod 12 = h - 12" and "k mod 12 = k - 12"
      using assms(3,4) by (simp_all add: le_mod_geq)
    with same False \<open>\<not> k < 12\<close> show ?thesis
      by simp
  qed
qed

lemma meridiem_inject:
  assumes "(if a then ''AM'' else ''PM'') = (if b then ''AM'' else ''PM'')"
  shows "a \<longleftrightarrow> b"
  using assms by (cases a; cases b) simp_all

lemma clock12_inject:
  assumes "clock12 m = clock12 n" and "m < 1440" and "n < 1440"
  shows "m = n"
proof -
  define h where "h = m div 60 mod 24"
  define k where "k = n div 60 mod 24"
  define h12 where "h12 = (if h mod 12 = 0 then 12 else h mod 12)"
  define k12 where "k12 = (if k mod 12 = 0 then 12 else k mod 12)"
  have bounds: "h < 24" "k < 24" "h12 < 100" "k12 < 100" "m mod 60 < 100" "n mod 60 < 100"
    by (simp_all add: h_def k_def h12_def k12_def less_trans [OF mod_less_divisor])
  have "twoDigit h12 @ ('':'' @ twoDigit (m mod 60) @ '' '' @ (if h < 12 then ''AM'' else ''PM''))
      = twoDigit k12 @ ('':'' @ twoDigit (n mod 60) @ '' '' @ (if k < 12 then ''AM'' else ''PM''))"
    using assms(1) by (simp only: clock12_def Let_def h_def k_def h12_def k12_def)
  then have first: "twoDigit h12 = twoDigit k12"
    and "twoDigit (m mod 60) @ ('' '' @ (if h < 12 then ''AM'' else ''PM''))
       = twoDigit (n mod 60) @ ('' '' @ (if k < 12 then ''AM'' else ''PM''))"
    by (simp_all add: twoDigit_length)
  then have second: "twoDigit (m mod 60) = twoDigit (n mod 60)"
    and "(if h < 12 then ''AM'' else ''PM'') = (if k < 12 then ''AM'' else ''PM'')"
    by (simp_all add: twoDigit_length)
  then have third: "h < 12 \<longleftrightarrow> k < 12"
    by (simp only: meridiem_inject)
  from first bounds(3,4) have "h12 = k12"
    by (rule twoDigit_inject)
  then have hours: "h = k"
    unfolding h12_def k12_def using third bounds(1,2) by (rule hour12_inject)
  from second(1) bounds(5,6) have minutes: "m mod 60 = n mod 60"
    by (rule twoDigit_inject)
  have "m div 60 = h" and "n div 60 = k"
    using assms(2,3) by (simp_all add: h_def k_def less_mult_imp_div_less)
  with hours have "m div 60 = n div 60"
    by simp
  with minutes show ?thesis
    by (metis div_mult_mod_eq)
qed

lemma toLocaleTimeString_clock:
  assumes "timeValue x = Some t" and "utcOffset db tz t = Some off"
  shows "toLocaleTimeString db x tz = Inr (clock12 (nat ((t div 60000 + off) mod 1440)))"
  using assms by (simp add: toLocaleTimeString_def clock12_length)

lemma toLocaleTimeString_invalid:
  assumes "timeValue x = None"
  shows "toLocaleTimeString db x tz = Inr ''Invalid ''"
  using assms by (simp add: toLocaleTimeString_def)

lemma toLocaleTimeString_differs:
  assumes "timeValue x = Some t"
    and "utcOffset db tz t = Some off" and "off \<noteq> 0" and "\<bar>off\<bar> < 1440"
  shows "toLocaleTimeString db x tz \<noteq> toLocaleTimeString db x ''UTC''"
proof
  assume same: "toLocaleTimeString db x tz = toLocaleTimeString db x ''UTC''"
  define a where "a = t div 60000"
  have utc: "utcOffset db ''UTC'' t = Some 0"
    by (simp add: utcOffset_def)
  from same have "clock12 (nat ((a + off) mod 1440)) = clock12 (nat ((a + 0) mod 1440))"
    by (simp add: toLocaleTimeString_clock [OF assms(1,2)] toLocaleTimeString_clock [OF assms(1) utc]
        a_def)
  moreover have "nat ((a + off) mod 1440) < 1440" and "nat ((a + 0) mod 1440) < 1440"
    by simp_all
  ultimately have "nat ((a + off) mod 1440) = nat ((a + 0) mod 1440)"
    by (rule clock12_inject)
  then have "(a + off) mod 1440 = a mod 1440"
    by simp
  then have "(1440::int) dvd (a + off) - a"
    by (simp only: mod_eq_dvd_iff)
  then have "(1440::int) dvd off"
    by simp
  with assms(3) have "\<bar>1440::int\<bar> \<le> \<bar>off\<bar>"
    by (rule dvd_imp_le_int)
  with assms(4) show False
    by simp
qed

text \<open>
  The entries of a payload: the title, the date, the two times rendered in the zone of
  the action, and the rest.
\<close>

lemma payload_entries:
  assumes "payload env e a = Inr d"
  shows "\<exists>date s1 s2 rest.
           d = [(''sessionTitle'', QStr (title e)), (''date'', QStr date),
                (''startTime'', QStr s1), (''endTime'', QStr s2)] @ rest
         \<and> toLocaleTimeString (tzOffset env) (startTime e) (tzOf e a) = Inr s1
         \<and> toLocaleTimeString (tzOffset env) (endTime e) (tzOf e a) = Inr s2"
  using assms
  by (auto simp add: payload_def Let_def split: sum.splits option.splits if_splits)

text \<open>The body of a request, from the entries of its payload.\<close>

lemma createQueryString_entries:
  "createQueryString enc
     ([(''sessionTitle'', QStr ti), (''date'', QStr date),
       (''startTime'', QStr s1), (''endTime'', QStr s2)] @ rest)
   = join ''&''
       ([enc ''sessionTitle'' @ ''='' @ enc ti, enc ''date'' @ ''='' @ enc date,
         enc ''startTime'' @ ''='' @ enc s1, enc ''endTime'' @ ''='' @ enc s2]
        @ map (\<lambda>(k, v).
                 case v of
                   QArr vs \<Rightarrow> join ''&'' (map (\<lambda>val. enc k @ ''='' @ enc val) vs)
                 | QStr s \<Rightarrow> enc k @ ''='' @ enc s)
            rest)"
  by (simp add: createQueryString_def)

text \<open>
  What a request of the action carries: its body is the query string of the payload of
  that action, and the payload holds the two times rendered in the zone of the action.
\<close>

lemma body_of_payload:
  assumes "getQueryString env e a = Inr qs"
  shows "\<exists>d date s1 s2 rest.
           payload env e a = Inr d
         \<and> qs = createQueryString (encodeURIComponent env) d
         \<and> d = [(''sessionTitle'', QStr (title e)), (''date'', QStr date),
                (''startTime'', QStr s1), (''endTime'', QStr s2)] @ rest
         \<and> toLocaleTimeString (tzOffset env) (startTime e) (tzOf e a) = Inr s1
         \<and> toLocaleTimeString (tzOffset env) (endTime e) (tzOf e a) = Inr s2"
proof -
  from assms obtain d where d: "payload env e a = Inr d"
    and qs: "qs = createQueryString (encodeURIComponent env) d"
    by (auto simp add: getQueryString_def split: sum.splits)
  from payload_entries [OF d] d qs show ?thesis
    by blast
qed

text \<open>
  Claim C7. Every request \<open>createMeeting\<close> issues has as its body the query string of
  a payload whose start and end time are rendered in the organizer's time zone; every
  request \<open>updateMeeting\<close> issues has as its body the query string of a payload whose
  start and end time are rendered in UTC. An offset from UTC is less than a day; when
  the time is a valid date and the offset of the organizer's zone at that instant is not
  zero, the time string in the request of \<open>createMeeting\<close> differs from the one in the
  request of \<open>updateMeeting\<close>.
\<close>

theorem times_in_organizer_zone_or_utc:
  "(\<forall>r \<in> set (fst (createMeeting env c e)).
      \<exists>date s1 s2 rest.
        getQueryString env e Create
          = Inr (createQueryString (encodeURIComponent env)
                  ([(''sessionTitle'', QStr (title e)), (''date'', QStr date),
                    (''startTime'', QStr s1), (''endTime'', QStr s2)] @ rest))
      \<and> body r
          = Some (createQueryString (encodeURIComponent env)
                  ([(''sessionTitle'', QStr (title e)), (''date'', QStr date),
                    (''startTime'', QStr s1), (''endTime'', QStr s2)] @ rest))
      \<and> toLocaleTimeString (tzOffset env) (startTime e) (timeZone (organizer e)) = Inr s1
      \<and> toLocaleTimeString (tzOffset env) (endTime e) (timeZone (organizer e)) = Inr s2)
   \<and> (\<forall>r \<in> set (fst (updateMeeting env c b e)).
      \<exists>date s1 s2 rest.
        getQueryString env e Update
          = Inr (createQueryString (encodeURIComponent env)
                  ([(''sessionTitle'', QStr (title e)), (''date'', QStr date),
                    (''startTime'', QStr s1), (''endTime'', QStr s2)] @ rest))
      \<and> body r
          = Some (createQueryString (encodeURIComponent env)
                  ([(''sessionTitle'', QStr (title e)), (''date'', QStr date),
                    (''startTime'', QStr s1), (''endTime'', QStr s2)] @ rest))
      \<and> toLocaleTimeString (tzOffset env) (startTime e) ''UTC'' = Inr s1
      \<and> toLocaleTimeString (tzOffset env) (endTime e) ''UTC'' = Inr s2)
   \<and> (\<forall>rc \<in> set (fst (createMeeting env c e)). \<forall>ru \<in> set (fst (updateMeeting env c b e)).
      \<exists>dc du cs ce us ue.
        payload env e Create = Inr dc \<and> payload env e Update = Inr du
      \<and> body rc = Some (createQueryString (encodeURIComponent env) dc)
      \<and> body ru = Some (createQueryString (encodeURIComponent env) du)
      \<and> map_of dc ''startTime'' = Some (QStr cs) \<and> map_of dc ''endTime'' = Some (QStr ce)
      \<and> map_of du ''startTime'' = Some (QStr us) \<and> map_of du ''endTime'' = Some (QStr ue)
      \<and> (\<forall>t off. timeValue (startTime e) = Some t
             \<and> utcOffset (tzOffset env) (timeZone (organizer e)) t = Some off
             \<and> off \<noteq> 0 \<and> \<bar>off\<bar> < 1440 \<longrightarrow> cs \<noteq> us)
      \<and> (\<forall>t off. timeValue (endTime e) = Some t
             \<and> utcOffset (tzOffset env) (timeZone (organizer e)) t = Some off
             \<and> off \<noteq> 0 \<and> \<bar>off\<bar> < 1440 \<longrightarrow> ce \<noteq> ue))"
proof (intro conjI ballI)
  fix r assume "r \<in> set (fst (createMeeting env c e))"
  then obtain k qs where qs: "getQueryString env e Create = Inr qs"
    and r: "r = sessionRequest ''POST'' ''https://api.squadcast.fm/v2/sessions'' k qs"
    using createMeeting_requested by blast
  from r have "body r = Some qs"
    by (simp add: sessionRequest_def)
  with body_of_payload [OF qs] qs
  show "\<exists>date s1 s2 rest.
        getQueryString env e Create
          = Inr (createQueryString (encodeURIComponent env)
                  ([(''sessionTitle'', QStr (title e)), (''date'', QStr date),
                    (''startTime'', QStr s1), (''endTime'', QStr s2)] @ rest))
      \<and> body r
          = Some (createQueryString (encodeURIComponent env)
                  ([(''sessionTitle'', QStr (title e)), (''date'', QStr date),
                    (''startTime'', QStr s1), (''endTime'', QStr s2)] @ rest))
      \<and> toLocaleTimeString (tzOffset env) (startTime e) (timeZone (organizer e)) = Inr s1
      \<and> toLocaleTimeString (tzOffset env) (endTime e) (timeZone (organizer e)) = Inr s2"
    unfolding tzOf_def by (elim exE conjE) (intro exI conjI, simp_all)
next
  fix r assume "r \<in> set (fst (updateMeeting env c b e))"
  then obtain k qs m where qs: "getQueryString env e Update = Inr qs"
    and r: "r = sessionRequest ''PUT'' (''https://api.squadcast.fm/v2/sessions/'' @ m) k qs"
    using updateMeeting_requested by blast
  from r have "body r = Some qs"
    by (simp add: sessionRequest_def)
  with body_of_payload [OF qs] qs
  show "\<exists>date s1 s2 rest.
        getQueryString env e Update
          = Inr (createQueryString (encodeURIComponent env)
                  ([(''sessionTitle'', QStr (title e)), (''date'', QStr date),
                    (''startTime'', QStr s1), (''endTime'', QStr s2)] @ rest))
      \<and> body r
          = Some (createQueryString (encodeURIComponent env)
                  ([(''sessionTitle'', QStr (title e)), (''date'', QStr date),
                    (''startTime'', QStr s1), (''endTime'', QStr s2)] @ rest))
      \<and> toLocaleTimeString (tzOffset env) (startTime e) ''UTC'' = Inr s1
      \<and> toLocaleTimeString (tzOffset env) (endTime e) ''UTC'' = Inr s2"
    unfolding tzOf_def by (elim exE conjE) (intro exI conjI, simp_all)
next
  fix rc ru
  assume inc: "rc \<in> set (fst (createMeeting env c e))"
    and inu: "ru \<in> set (fst (updateMeeting env c b e))"
  from createMeeting_requested [OF inc]
  obtain k qc where qc: "getQueryString env e Create = Inr qc"
    and rc: "rc = sessionRequest ''POST'' ''https://api.squadcast.fm/v2/sessions'' k qc"
    by blast
  from updateMeeting_requested [OF inu]
  obtain k' qu m where qu: "getQueryString env e Update = Inr qu"
    and ru: "ru = sessionRequest ''PUT'' (''https://api.squadcast.fm/v2/sessions/'' @ m) k' qu"
    by blast
  from body_of_payload [OF qc] obtain dc cs ce
    where dc: "payload env e Create = Inr dc" "qc = createQueryString (encodeURIComponent env) dc"
      "map_of dc ''startTime'' = Some (QStr cs)" "map_of dc ''endTime'' = Some (QStr ce)"
      "toLocaleTimeString (tzOffset env) (startTime e) (timeZone (organizer e)) = Inr cs"
      "toLocaleTimeString (tzOffset env) (endTime e) (timeZone (organizer e)) = Inr ce"
    unfolding tzOf_def by auto
  from body_of_payload [OF qu] obtain du us ue
    where du: "payload env e Update = Inr du" "qu = createQueryString (encodeURIComponent env) du"
      "map_of du ''startTime'' = Some (QStr us)" "map_of du ''endTime'' = Some (QStr ue)"
      "toLocaleTimeString (tzOffset env) (startTime e) ''UTC'' = Inr us"
      "toLocaleTimeString (tzOffset env) (endTime e) ''UTC'' = Inr ue"
    unfolding tzOf_def by auto
  have bodies: "body rc = Some (createQueryString (encodeURIComponent env) dc)"
    "body ru = Some (createQueryString (encodeURIComponent env) du)"
    using rc ru dc(2) du(2) by (simp_all add: sessionRequest_def)
  have start: "cs \<noteq> us"
    if "timeValue (startTime e) = Some t
        \<and> utcOffset (tzOffset env) (timeZone (organizer e)) t = Some off
        \<and> off \<noteq> 0 \<and> \<bar>off\<bar> < 1440" for t off
  proof -
    from that have "toLocaleTimeString (tzOffset env) (startTime e) (timeZone (organizer e))
        \<noteq> toLocaleTimeString (tzOffset env) (startTime e) ''UTC''"
      using toLocaleTimeString_differs [of "startTime e" t "tzOffset env" "timeZone (organizer e)" off]
      by simp
    with dc(5) du(5) show ?thesis
      by simp
  qed
  have finish: "ce \<noteq> ue"
    if "timeValue (endTime e) = Some t
        \<and> utcOffset (tzOffset env) (timeZone (organizer e)) t = Some off
        \<and> off \<noteq> 0 \<and> \<bar>off\<bar> < 1440" for t off
  proof -
    from that have "toLocaleTimeString (tzOffset env) (endTime e) (timeZone (organizer e))
        \<noteq> toLocaleTimeString (tzOffset env) (endTime e) ''UTC''"
      using toLocaleTimeString_differs [of "endTime e" t "tzOffset env" "timeZone (organizer e)" off]
      by simp
    with dc(6) du(6) show ?thesis
      by simp
  qed
  from dc(1,3,4) du(1,3,4) bodies start finish
  show "\<exists>dc du cs ce us ue.
        payload env e Create = Inr dc \<and> payload env e Update = Inr du
      \<and> body rc = Some (createQueryString (encodeURIComponent env) dc)
      \<and> body ru = Some (createQueryString (encodeURIComponent env) du)
      \<and> map_of dc ''startTime'' = Some (QStr cs) \<and> map_of dc ''endTime'' = Some (QStr ce)
      \<and> map_of du ''startTime'' = Some (QStr us) \<and> map_of du ''endTime'' = Some (QStr ue)
      \<and> (\<forall>t off. timeValue (startTime e) = Some t
             \<and> utcOffset (tzOffset env) (timeZone (organizer e)) t = Some off
             \<and> off \<noteq> 0 \<and> \<bar>off\<bar> < 1440 \<longrightarrow> cs \<noteq> us)
      \<and> (\<forall>t off. timeValue (endTime e) = Some t
             \<and> utcOffset (tzOffset env) (timeZone (organizer e)) t = Some off
             \<and> off \<noteq> 0 \<and> \<bar>off\<bar> < 1440 \<longrightarrow> ce \<noteq> ue)"
    by blast
qed

theorem times_in_organizer_zone_or_utc_witness:
  "map body (fst (createMeeting (provider 200 None) storedKey
        (event [''a@x.com'', ''g@x.com''] (Some [''g@x.com'']) None)))
     = [Some ''sessionTitle=Demo&date=2026-01-01&startTime=03:30 PM&endTime=04:30 PM&timeZone=Europe/Berlin&stage=o@x.com&stage=a@x.com&viewer=g@x.com'']
   \<and> map body (fst (updateMeeting (provider 200 None) storedKey
        \<lparr>meetingId = Some ''s1'', meetingPassword = [], meetingUrl = ''u''\<rparr>
        (event [''a@x.com'', ''g@x.com''] (Some [''g@x.com'']) None)))
     = [Some ''sessionTitle=Demo&date=2026-01-01&startTime=02:30 PM&endTime=03:30 PM&timeZone=Europe/Berlin&stage=o@x.com&stage=a@x.com&viewer=g@x.com'']
   \<and> timeValue (startTime (event [''a@x.com'', ''g@x.com''] (Some [''g@x.com'']) None))
     = Some 1767277800000
   \<and> utcOffset (tzOffset (provider 200 None)) ''Europe/Berlin'' 1767277800000 = Some 60
   \<and> toLocaleTimeString (tzOffset (provider 200 None)) (Some 1767277800000) ''Europe/Berlin''
     = Inr ''03:30 PM''
   \<and> toLocaleTimeString (tzOffset (provider 200 None)) (Some 1767277800000) ''UTC''
     = Inr ''02:30 PM''
   \<and> ''03:30 PM'' \<noteq> ''02:30 PM''"
proof -
  let ?env = "provider 200 None"
  let ?e = "event [''a@x.com'', ''g@x.com''] (Some [''g@x.com'']) None"
  let ?b = "\<lparr>meetingId = Some ''s1'', meetingPassword = [], meetingUrl = ''u''\<rparr>"
  let ?dc = "[(''sessionTitle'', QStr ''Demo''), (''date'', QStr ''2026-01-01''),
            (''startTime'', QStr ''03:30 PM''), (''endTime'', QStr ''04:30 PM''),
            (''timeZone'', QStr ''Europe/Berlin''),
            (''stage'', QArr [''o@x.com'', ''a@x.com'']), (''viewer'', QArr [''g@x.com''])]"
  let ?du = "[(''sessionTitle'', QStr ''Demo''), (''date'', QStr ''2026-01-01''),
            (''startTime'', QStr ''02:30 PM''), (''endTime'', QStr ''03:30 PM''),
            (''timeZone'', QStr ''Europe/Berlin''),
            (''stage'', QArr [''o@x.com'', ''a@x.com'']), (''viewer'', QArr [''g@x.com''])]"
  let ?qc = "''sessionTitle=Demo&date=2026-01-01&startTime=03:30 PM&endTime=04:30 PM&timeZone=Europe/Berlin&stage=o@x.com&stage=a@x.com&viewer=g@x.com''"
  let ?qu = "''sessionTitle=Demo&date=2026-01-01&startTime=02:30 PM&endTime=03:30 PM&timeZone=Europe/Berlin&stage=o@x.com&stage=a@x.com&viewer=g@x.com''"
  have sv: "createStageAndViewers ?e = Inr \<lparr>stage = [''o@x.com'', ''a@x.com''], viewer = [''g@x.com'']\<rparr>"
    by (simp add: createStageAndViewers_def guestsOf_def filterGuests_def spread_def everyoneOf_def
        event_def person_def)
  have show_id: "getShowId ?env ?e = Inr None"
    by (simp add: getShowId_def event_def)
  have fields: "title ?e = ''Demo''" "startTime ?e = Some 1767277800000"
    "endTime ?e = Some 1767281400000" "timeZone (organizer ?e) = ''Europe/Berlin''"
    by (simp_all add: event_def person_def)
  have env: "dayjsFormat ?env x tz = Inr ''2026-01-01''"
    "tzOffset ?env = (\<lambda>tz t. if tz = ''Europe/Berlin'' then Some 60 else None)"
    "encodeURIComponent ?env = (\<lambda>s. s)" for x tz
    by (simp_all add: provider_def)
  have clock: "clock12 930 = ''03:30 PM''" "clock12 990 = ''04:30 PM''"
    "clock12 870 = ''02:30 PM''"
    by (simp_all add: clock12_def twoDigit_def digit_def)
  have tv: "timeValue (Some 1767277800000) = Some 1767277800000"
    "timeValue (Some 1767281400000) = Some 1767281400000"
    by (simp_all add: timeValue_def)
  have off: "utcOffset (tzOffset ?env) ''Europe/Berlin'' 1767277800000 = Some 60"
    by (simp add: env utcOffset_def)
  have local: "toLocaleTimeString (tzOffset ?env) (Some 1767277800000) ''Europe/Berlin'' = Inr ''03:30 PM''"
    and utc: "toLocaleTimeString (tzOffset ?env) (Some 1767277800000) ''UTC'' = Inr ''02:30 PM''"
    by (simp_all add: toLocaleTimeString_def tv env utcOffset_def clock)
  have c: "payload ?env ?e Create = Inr ?dc"
    by (simp add: payload_def sv show_id fields env tzOf_def toLocaleTimeString_def tv utcOffset_def clock)
  have u: "payload ?env ?e Update = Inr ?du"
    by (simp add: payload_def sv show_id fields env tzOf_def toLocaleTimeString_def tv utcOffset_def clock)
  have qc: "getQueryString ?env ?e Create = Inr ?qc"
    by (simp add: getQueryString_def c env createQueryString_def)
  have qu: "getQueryString ?env ?e Update = Inr ?qu"
    by (simp add: getQueryString_def u env createQueryString_def)
  have cm: "map body (fst (createMeeting ?env storedKey ?e)) = [Some ?qc]"
    using qc by (simp add: createMeeting_response [OF example_getApiKey _ example_fetch] sessionRequest_def)
  have um: "map body (fst (updateMeeting ?env storedKey ?b ?e)) = [Some ?qu]"
    using qu by (simp add: updateMeeting_def example_getApiKey example_fetch sessionRequest_def)
  from cm obtain rc where rc: "rc \<in> set (fst (createMeeting ?env storedKey ?e))"
    by (cases "fst (createMeeting ?env storedKey ?e)") auto
  from um obtain ru where ru: "ru \<in> set (fst (updateMeeting ?env storedKey ?b ?e))"
    by (cases "fst (updateMeeting ?env storedKey ?b ?e)") auto
  from times_in_organizer_zone_or_utc [of ?env storedKey ?e ?b] rc ru
  obtain dc du cs us where "payload ?env ?e Create = Inr dc" and "payload ?env ?e Update = Inr du"
    and "map_of dc ''startTime'' = Some (QStr cs)" and "map_of du ''startTime'' = Some (QStr us)"
    and differ: "\<forall>t off. timeValue (startTime ?e) = Some t
             \<and> utcOffset (tzOffset ?env) (timeZone (organizer ?e)) t = Some off
             \<and> off \<noteq> 0 \<and> \<bar>off\<bar> < 1440 \<longrightarrow> cs \<noteq> us"
    by blast
  with c u have "cs = ''03:30 PM''" and "us = ''02:30 PM''"
    by simp_all
  moreover from differ have "cs \<noteq> us"
    using fields(2,4) tv(1) off by simp
  ultimately have "''03:30 PM'' \<noteq> ''02:30 PM''"
    by simp
  with cm um fields(2) tv(1) off local utc show ?thesis
    by simp
qed

end
